theory Spec2Isabelle
  imports Main "HOL-Library.Word"
begin

section \<open>The HTTP audio stream session (http_audio_stream_session.cpp)\<close>

text \<open>
  The session \<^verbatim>\<open>CSpxHttpAudioStreamSession\<close> owns an audio pump, an optional codec
  adapter, an engine adapter and a one-shot promise on which the blocking streaming call
  waits. Every member function is embedded as a function on an explicit session record.
  A C++ exception is a value of type \<open>fault\<close>, returned together with the session as the
  throw left it. The collaborators whose code is outside the repository files at hand (the
  pump, the engine adapter, the thread service) are kept to what the session calls on
  them; each call is written to the \<open>effects\<close> log of the session, in program order.
\<close>

subsection \<open>Machine integers and the wave format\<close>

type_synonym uint16_t = "16 word"
type_synonym uint32_t = "32 word"

record SPXWAVEFORMATEX =
  wFormatTag :: uint16_t
  nChannels :: uint16_t
  nSamplesPerSec :: uint32_t
  nAvgBytesPerSec :: uint32_t
  nBlockAlign :: uint16_t
  wBitsPerSample :: uint16_t
  cbSize :: uint16_t

definition WAVE_FORMAT_PCM :: uint16_t where
  "WAVE_FORMAT_PCM = 1"

text \<open>An audio chunk: only its byte length is read by the session.\<close>

record DataChunk =
  size_chunk :: uint32_t

subsection \<open>Results, faults and the effect log\<close>

text \<open>
  \<open>ErrorResult msg\<close> is what \<^verbatim>\<open>CreateErrorResult(ErrorInfo::FromRuntimeMessage(msg))\<close>
  builds. What the service answers to a flush is outside the sources: the engine
  adapter's terminal result is identified by the audio it had been given.
\<close>

datatype RecognitionResult =
    AdapterResult "DataChunk list"
  | ErrorResult string

datatype stoi_error = invalid_argument | out_of_range

datatype fault =
    SPXERR_ALREADY_INITIALIZED
  | SPXERR_GSTREAMER_NOT_FOUND_ERROR
  | SPXERR_RUNTIME_ERROR
  | logic_error string
  | promise_already_satisfied
  | division_by_zero

datatype Resource = PumpRef | FactoryRef | CodecAdapterRef | EngineAdapterRef

datatype wait_status = future_ready RecognitionResult | future_timeout

datatype effect =
    PumpStarted
  | PumpStopped
  | RecoSetFormat SPXWAVEFORMATEX bool
  | RecoProcessAudio DataChunk
  | RecoFlushAudio
  | RecoGetResult
  | PromiseSetValue nat RecognitionResult
  | WaitFor int wait_status int
  | CallbackThrew fault
  | CodecClosed
  | ThreadServiceTerm
  | Released Resource

subsection \<open>The collaborators, as far as the session uses them\<close>

text \<open>
  Modelled from the spec: the audio pump (its class is not among the sources) has the
  states Idle, Processing and Stopped; \<^verbatim>\<open>StartPump\<close> takes it to Processing and
  \<^verbatim>\<open>StopPump\<close> back to Idle. The session reads its state and its negotiated format.
\<close>

datatype PumpState = Idle | Processing | Stopped

datatype PumpKind = CSpxWavFilePump string | CSpxInteractiveMicrophone | CSpxAudioPump

record AudioPump =
  pump_kind :: PumpKind
  pump_state :: PumpState
  pump_format :: SPXWAVEFORMATEX
  pump_reader_is_codec :: bool

text \<open>
  Modelled from the spec: the engine adapter (boundary only) takes the negotiated format,
  then audio chunks, then a flush, and hands out a terminal result for what it was given.
\<close>

record HttpRecoEngineAdapter =
  reco_format :: "SPXWAVEFORMATEX option"
  reco_audio :: "DataChunk list"

definition new_reco :: HttpRecoEngineAdapter where
  "new_reco = \<lparr>reco_format = None, reco_audio = []\<rparr>"

record CodecAdapter =
  codec_format :: "SPXWAVEFORMATEX option"
  codec_closed :: bool

subsection \<open>The session record\<close>

text \<open>
  \<open>m_audioIsDone\<close> is the shared pointer to the promise; the promise's shared state,
  which the waiting future reads as well, lives in the store \<open>promises\<close> under the
  pointer's address. The header declaring the members is not among the sources: the
  duration counter and the bytes-per-second member are taken as unsigned 32-bit, the
  type \<^verbatim>\<open>FromBytesToMilisecond\<close> works in, and the timeout (a
  \<^verbatim>\<open>std::chrono::milliseconds\<close>) by its count. \<open>properties\<close> is the named-property
  surface the site answers \<^verbatim>\<open>GetStringValue\<close> from.
\<close>

record session =
  m_keepFactoryAlive :: bool
  m_fromMicrophone :: bool
  m_threadService :: bool
  m_audioPump :: "AudioPump option"
  m_codecAdapter :: "CodecAdapter option"
  m_reco :: "HttpRecoEngineAdapter option"
  m_audioIsDone :: "nat option"
  promises :: "RecognitionResult option list"
  m_microphoneTimeoutInMS :: int
  m_totalAudioinMS :: uint32_t
  m_avgBytesPerSecond :: uint32_t
  properties :: "(string \<times> string) list"
  effects :: "effect list"

definition log_effect :: "effect \<Rightarrow> session \<Rightarrow> session" where
  "log_effect e s = s\<lparr>effects := effects s @ [e]\<rparr>"

subsection \<open>The promise\<close>

text \<open>
  \<^verbatim>\<open>std::promise::set_value\<close> stores the value when the shared state is still empty and
  throws \<^verbatim>\<open>std::future_error\<close> (promise already satisfied) otherwise.
\<close>

definition future_value :: "nat \<Rightarrow> session \<Rightarrow> RecognitionResult option" where
  "future_value p s = (if p < length (promises s) then promises s ! p else None)"

definition set_value :: "nat \<Rightarrow> RecognitionResult \<Rightarrow> session \<Rightarrow> fault option \<times> session" where
  "set_value p r s =
     (if p < length (promises s) \<and> promises s ! p = None
      then (None, log_effect (PromiseSetValue p r) (s\<lparr>promises := (promises s)[p := Some r]\<rparr>))
      else (Some promise_already_satisfied, s))"

definition CreateErrorResult :: "string \<Rightarrow> RecognitionResult" where
  "CreateErrorResult msg = ErrorResult msg"

subsection \<open>Error, SetFormat, ProcessAudio\<close>

definition Error :: "string \<Rightarrow> session \<Rightarrow> fault option \<times> session" where
  "Error msg s =
     (let result = CreateErrorResult msg in
      case m_audioIsDone s of
        None \<Rightarrow> (None, s)
      | Some audioIsDone \<Rightarrow> set_value audioIsDone result s)"

definition reco_FlushAudio :: "session \<Rightarrow> session" where
  "reco_FlushAudio s = log_effect RecoFlushAudio s"

definition reco_GetResult :: "session \<Rightarrow> RecognitionResult \<times> session" where
  "reco_GetResult s =
     (case m_reco s of
        None \<Rightarrow> (AdapterResult [], log_effect RecoGetResult s)
      | Some reco \<Rightarrow> (AdapterResult (reco_audio reco), log_effect RecoGetResult s))"

definition SetFormat :: "SPXWAVEFORMATEX option \<Rightarrow> session \<Rightarrow> fault option \<times> session" where
  "SetFormat pformat s =
     (if m_reco s = None then (Some SPXERR_RUNTIME_ERROR, s)
      else
        let s1 = (case pformat of
                    Some f \<Rightarrow> s\<lparr>m_avgBytesPerSecond := nAvgBytesPerSec f\<rparr>
                  | None \<Rightarrow> s)
        in if pformat = None \<and> m_audioIsDone s1 \<noteq> None then
             let s2 = reco_FlushAudio s1;
                 (result, s3) = reco_GetResult s2
             in (case m_audioIsDone s3 of
                   None \<Rightarrow> (None, s3)
                 | Some p \<Rightarrow>
                     (case set_value p result s3 of
                        (Some f, s4) \<Rightarrow> (Some f, s4)
                      | (None, s4) \<Rightarrow> (None, s4\<lparr>m_audioIsDone := None\<rparr>)))
           else (None, s1))"

text \<open>
  \<^verbatim>\<open>static_cast<uint32_t>(bytes * 1000) / bytesPerSecond\<close>: the product wraps in 32
  bits; the division has no guard, and dividing by zero is undefined in C++, which the
  model records as the fault \<open>division_by_zero\<close>.
\<close>

definition FromBytesToMilisecond :: "uint32_t \<Rightarrow> uint32_t \<Rightarrow> fault + uint32_t" where
  "FromBytesToMilisecond bytes bytesPerSecond =
     (if bytesPerSecond = 0 then Inl division_by_zero
      else Inr ((bytes * 1000) div bytesPerSecond))"

definition reco_ProcessAudio :: "DataChunk \<Rightarrow> session \<Rightarrow> session" where
  "reco_ProcessAudio audioChunk s =
     log_effect (RecoProcessAudio audioChunk)
       (s\<lparr>m_reco := map_option (\<lambda>r. r\<lparr>reco_audio := reco_audio r @ [audioChunk]\<rparr>) (m_reco s)\<rparr>)"

definition ProcessAudio :: "DataChunk \<Rightarrow> session \<Rightarrow> fault option \<times> session" where
  "ProcessAudio audioChunk s =
     (if m_reco s = None then (Some SPXERR_RUNTIME_ERROR, s)
      else
        let s1 = reco_ProcessAudio audioChunk s in
        if m_fromMicrophone s1 then
          (case FromBytesToMilisecond (size_chunk audioChunk) (m_avgBytesPerSecond s1) of
             Inl f \<Rightarrow> (Some f, s1)
           | Inr ms \<Rightarrow>
               let s2 = s1\<lparr>m_totalAudioinMS := m_totalAudioinMS s1 + ms\<rparr> in
               if m_microphoneTimeoutInMS s2 \<le> uint (m_totalAudioinMS s2)
               then SetFormat None s2
               else (None, s2))
        else (None, s1))"

subsection \<open>std::stoi and the named properties\<close>

text \<open>
  \<^verbatim>\<open>std::stoi\<close> in base 10: leading white space is skipped, one sign is accepted, the
  longest run of digits is read and whatever follows is ignored; no digit at all is
  \<^verbatim>\<open>std::invalid_argument\<close>, a value outside the 32-bit \<^verbatim>\<open>int\<close> is
  \<^verbatim>\<open>std::out_of_range\<close>. Both are \<^verbatim>\<open>std::logic_error\<close>s.
\<close>

definition isspace :: "char \<Rightarrow> bool" where
  "isspace c = (c = CHR '' '' \<or> c = CHR 0x09 \<or> c = CHR 0x0A \<or> c = CHR 0x0B
                \<or> c = CHR 0x0C \<or> c = CHR 0x0D)"

definition isdigit :: "char \<Rightarrow> bool" where
  "isdigit c = (48 \<le> (of_char c :: nat) \<and> (of_char c :: nat) \<le> 57)"

definition digit_value :: "char \<Rightarrow> int" where
  "digit_value c = int (of_char c) - 48"

definition strip_sign :: "string \<Rightarrow> bool \<times> string" where
  "strip_sign str =
     (case str of
        [] \<Rightarrow> (False, [])
      | c # rest \<Rightarrow>
          if c = CHR ''-'' then (True, rest)
          else if c = CHR ''+'' then (False, rest)
          else (False, str))"

definition stoi :: "string \<Rightarrow> stoi_error + int" where
  "stoi str =
     (let (negative, body) = strip_sign (dropWhile isspace str);
          digits = takeWhile isdigit body
      in if digits = [] then Inl invalid_argument
         else
           let magnitude = foldl (\<lambda>acc c. 10 * acc + digit_value c) 0 digits;
               v = (if negative then - magnitude else magnitude)
           in if v < - (2 ^ 31) \<or> 2 ^ 31 - 1 < v then Inl out_of_range else Inr v)"

text \<open>
  The text of \<^verbatim>\<open>e.what()\<close> is the C++ library's own; \<^verbatim>\<open>libstdc++\<close> answers with the
  name of the function.
\<close>

definition what :: "stoi_error \<Rightarrow> string" where
  "what e = ''stoi''"

text \<open>
  Modelled from the spec: the named-property lookup (its implementation belongs to the
  site, outside the sources) provides string-valued overrides and answers with the
  given default when the key has no value.
\<close>

definition GetStringValue :: "string \<Rightarrow> string \<Rightarrow> session \<Rightarrow> string" where
  "GetStringValue name defaultValue s =
     (case map_of (properties s) name of
        None \<Rightarrow> defaultValue
      | Some v \<Rightarrow> v)"

definition GetMicrophoneTimeout :: "session \<Rightarrow> fault + int" where
  "GetMicrophoneTimeout s =
     (let valueFromUser =
            GetStringValue ''SPEECH-MicrophoneTimeoutInSpeakerRecognitionInMilliseconds'' ''0'' s
      in if valueFromUser = ''0'' then Inr (m_microphoneTimeoutInMS s)
         else
           (case stoi valueFromUser of
              Inl e \<Rightarrow> Inl (logic_error (''error in parsing'' @ valueFromUser @ what e))
            | Inr v \<Rightarrow>
                let valueInMS = (word_of_int v :: uint32_t)
                in Inr (uint valueInMS)))"

subsection \<open>Stopping the pump and the cleanup after a cycle\<close>

text \<open>
  \<^verbatim>\<open>SpxTermAndClear\<close> terminates the object a member points to, if there is one, and
  clears the member.
\<close>

fun SpxTermAndClear :: "Resource \<Rightarrow> session \<Rightarrow> session" where
  "SpxTermAndClear PumpRef s =
     (if m_audioPump s = None then s
      else log_effect (Released PumpRef) (s\<lparr>m_audioPump := None\<rparr>))"
| "SpxTermAndClear FactoryRef s =
     (if m_keepFactoryAlive s
      then log_effect (Released FactoryRef) (s\<lparr>m_keepFactoryAlive := False\<rparr>)
      else s)"
| "SpxTermAndClear CodecAdapterRef s =
     (if m_codecAdapter s = None then s
      else log_effect (Released CodecAdapterRef) (s\<lparr>m_codecAdapter := None\<rparr>))"
| "SpxTermAndClear EngineAdapterRef s =
     (if m_reco s = None then s
      else log_effect (Released EngineAdapterRef) (s\<lparr>m_reco := None\<rparr>))"

definition pump_is_processing :: "session \<Rightarrow> bool" where
  "pump_is_processing s =
     (case m_audioPump s of
        None \<Rightarrow> False
      | Some audioPump \<Rightarrow> pump_state audioPump = Processing)"

definition pump_StopPump :: "session \<Rightarrow> session" where
  "pump_StopPump s =
     log_effect PumpStopped
       (s\<lparr>m_audioPump := map_option (\<lambda>p. p\<lparr>pump_state := Idle\<rparr>) (m_audioPump s)\<rparr>)"

definition pump_StartPump :: "session \<Rightarrow> session" where
  "pump_StartPump s =
     log_effect PumpStarted
       (s\<lparr>m_audioPump := map_option (\<lambda>p. p\<lparr>pump_state := Processing\<rparr>) (m_audioPump s)\<rparr>)"

definition StopPump :: "session \<Rightarrow> session" where
  "StopPump s = (if pump_is_processing s then pump_StopPump s else s)"

definition CleanupAfterEachAudioPumping :: "session \<Rightarrow> session" where
  "CleanupAfterEachAudioPumping s =
     (let s1 = StopPump s;
          s2 = SpxTermAndClear PumpRef s1
      in s2\<lparr>m_fromMicrophone := False, m_totalAudioinMS := 0\<rparr>)"

subsection \<open>Tasks on the thread service\<close>

text \<open>
  \<^verbatim>\<open>CreateTask\<close> wraps a function so that whatever it throws is caught; the wrapper
  then calls \<^verbatim>\<open>Error(error)\<close> with its local string \<^verbatim>\<open>error\<close>, which nothing has
  written to. What \<^verbatim>\<open>Error\<close> itself throws leaves the packaged task.
\<close>

definition CreateTask :: "(session \<Rightarrow> fault option \<times> session) \<Rightarrow> session \<Rightarrow> fault option \<times> session" where
  "CreateTask func s =
     (case func s of
        (None, s1) \<Rightarrow> (None, s1)
      | (Some f, s1) \<Rightarrow> Error [] s1)"

text \<open>
  Modelled from the spec: the thread service (the Task Executor, not among the sources)
  runs submitted tasks one at a time in submission order. \<^verbatim>\<open>ExecuteAsync\<close> hands
  nothing back to the submitter; \<^verbatim>\<open>ExecuteSync\<close> returns when the task has run and
  hands its failure to the submitter.
\<close>

definition ExecuteAsync :: "(session \<Rightarrow> fault option \<times> session) \<Rightarrow> session \<Rightarrow> session" where
  "ExecuteAsync task s = snd (task s)"

definition ExecuteSync :: "(session \<Rightarrow> fault option \<times> session) \<Rightarrow> session \<Rightarrow> fault option \<times> session" where
  "ExecuteSync task s = task s"

subsection \<open>Init and the three initializers\<close>

text \<open>
  \<^verbatim>\<open>Init\<close> takes the factory reference, clears the microphone flag and starts the
  thread service; the other members keep what the constructor gave them.
\<close>

definition Init :: "session \<Rightarrow> session" where
  "Init s = s\<lparr>m_keepFactoryAlive := True, m_fromMicrophone := False, m_threadService := True\<rparr>"

text \<open>
  The body of each initializer is the function handed to \<^verbatim>\<open>CreateTask\<close>. The format a
  pump negotiates comes from its source (the WAV file, the microphone) and is an
  argument here.
\<close>

definition InitFromFile_task :: "string \<Rightarrow> SPXWAVEFORMATEX \<Rightarrow> session \<Rightarrow> fault option \<times> session" where
  "InitFromFile_task filename file_format s =
     (if m_audioPump s \<noteq> None then (Some SPXERR_ALREADY_INITIALIZED, s)
      else (None, s\<lparr>m_audioPump :=
              Some \<lparr>pump_kind = CSpxWavFilePump filename, pump_state = Idle,
                    pump_format = file_format, pump_reader_is_codec = False\<rparr>\<rparr>))"

definition InitFromFile :: "string \<Rightarrow> SPXWAVEFORMATEX \<Rightarrow> session \<Rightarrow> session" where
  "InitFromFile filename file_format s =
     ExecuteAsync (CreateTask (InitFromFile_task filename file_format)) s"

definition InitFromMicrophone_task :: "SPXWAVEFORMATEX \<Rightarrow> session \<Rightarrow> fault option \<times> session" where
  "InitFromMicrophone_task mic_format s =
     (if m_audioPump s \<noteq> None then (Some SPXERR_ALREADY_INITIALIZED, s)
      else (None, s\<lparr>m_audioPump :=
              Some \<lparr>pump_kind = CSpxInteractiveMicrophone, pump_state = Idle,
                    pump_format = mic_format, pump_reader_is_codec = False\<rparr>,
              m_fromMicrophone := True\<rparr>))"

definition InitFromMicrophone :: "SPXWAVEFORMATEX \<Rightarrow> session \<Rightarrow> session" where
  "InitFromMicrophone mic_format s = ExecuteAsync (CreateTask (InitFromMicrophone_task mic_format)) s"

text \<open>
  Lines 430 to 447 of the stream initializer: the three output-format overrides are read
  as strings and parsed one after the other inside one \<^verbatim>\<open>try\<close>; the handler of any
  exception writes all three defaults.
\<close>

definition default_output_format :: "SPXWAVEFORMATEX \<Rightarrow> SPXWAVEFORMATEX" where
  "default_output_format waveformat =
     waveformat\<lparr>nChannels := 1, wBitsPerSample := 16, nSamplesPerSec := 16000\<rparr>"

definition output_format_overrides :: "session \<Rightarrow> SPXWAVEFORMATEX \<Rightarrow> SPXWAVEFORMATEX" where
  "output_format_overrides s waveformat =
     (let numChannelsString = GetStringValue ''OutputPCMChannelCount'' ''1'' s;
          numBitsPerSampleString = GetStringValue ''OutputPCMNumBitsPerSample'' ''16'' s;
          sampleRateString = GetStringValue ''OutputPCMSamplerate'' ''16000'' s
      in case stoi numChannelsString of
           Inl e \<Rightarrow> default_output_format waveformat
         | Inr channels \<Rightarrow>
             let w1 = waveformat\<lparr>nChannels := word_of_int channels\<rparr> in
             (case stoi numBitsPerSampleString of
                Inl e \<Rightarrow> default_output_format w1
              | Inr bits \<Rightarrow>
                  let w2 = w1\<lparr>wBitsPerSample := word_of_int bits\<rparr> in
                  (case stoi sampleRateString of
                     Inl e \<Rightarrow> default_output_format w2
                   | Inr rate \<Rightarrow> w2\<lparr>nSamplesPerSec := word_of_int rate\<rparr>)))"

record AudioStream =
  stream_format :: SPXWAVEFORMATEX

text \<open>
  \<open>codec_available\<close> says whether the object factory can create the codec adapter; it
  answers with a null pointer when it cannot. The pump reports the format of its reader:
  the codec adapter's, once set, and the stream's otherwise.
\<close>

definition attach_stream_pump :: "AudioStream \<Rightarrow> session \<Rightarrow> session" where
  "attach_stream_pump stream s =
     s\<lparr>m_audioPump :=
         Some \<lparr>pump_kind = CSpxAudioPump, pump_state = Idle,
               pump_format = (case m_codecAdapter s of
                                None \<Rightarrow> stream_format stream
                              | Some codec \<Rightarrow>
                                  (case codec_format codec of
                                     None \<Rightarrow> stream_format stream
                                   | Some f \<Rightarrow> f)),
               pump_reader_is_codec = (m_codecAdapter s \<noteq> None)\<rparr>\<rparr>"

definition InitFromStream_task :: "AudioStream \<Rightarrow> bool \<Rightarrow> session \<Rightarrow> fault option \<times> session" where
  "InitFromStream_task stream codec_available s =
     (if m_audioPump s \<noteq> None then (Some SPXERR_ALREADY_INITIALIZED, s)
      else
        let waveformat = stream_format stream in
        if wFormatTag waveformat \<noteq> WAVE_FORMAT_PCM then
          (let s1 = s\<lparr>m_codecAdapter :=
                       (if codec_available
                        then Some \<lparr>codec_format = None, codec_closed = False\<rparr>
                        else None)\<rparr>
           in case m_codecAdapter s1 of
                None \<Rightarrow> (Some SPXERR_GSTREAMER_NOT_FOUND_ERROR, s1)
              | Some codec \<Rightarrow>
                  let waveformat' = output_format_overrides s1 waveformat;
                      s2 = s1\<lparr>m_codecAdapter := Some (codec\<lparr>codec_format := Some waveformat'\<rparr>)\<rparr>
                  in (None, attach_stream_pump stream s2))
        else (None, attach_stream_pump stream s))"

definition InitFromStream :: "AudioStream \<Rightarrow> bool \<Rightarrow> session \<Rightarrow> session" where
  "InitFromStream stream codec_available s =
     ExecuteAsync (CreateTask (InitFromStream_task stream codec_available)) s"

subsection \<open>What arrives while the streaming call waits\<close>

text \<open>
  While the task waits on the future, the pump's thread calls \<^verbatim>\<open>SetFormat\<close> and
  \<^verbatim>\<open>ProcessAudio\<close>, any thread may call \<^verbatim>\<open>Error\<close>, and the pump may leave the
  Processing state on its own. A cycle is given the list of these calls, each with the
  time in milliseconds after the wait began at which it arrives. An exception thrown by a
  call goes to the calling thread; the session stays as the throw left it and the log
  records the fault. The division by zero in \<^verbatim>\<open>ProcessAudio\<close> is not an exception: it is
  undefined behaviour, and the process is killed. A killed process is the outcome \<open>None\<close>:
  nothing is delivered after it, and a call that waits does not return.
\<close>

datatype callback =
    OnSetFormat "SPXWAVEFORMATEX option"
  | OnProcessAudio DataChunk
  | OnError string
  | PumpLeftProcessing

definition thrown_to_caller :: "fault option \<times> session \<Rightarrow> session option" where
  "thrown_to_caller r =
     (case r of
        (None, s) \<Rightarrow> Some s
      | (Some f, s) \<Rightarrow>
          if f = division_by_zero then None
          else Some (log_effect (CallbackThrew f) s))"

fun deliver :: "callback \<Rightarrow> session \<Rightarrow> session option" where
  "deliver (OnSetFormat pformat) s = thrown_to_caller (SetFormat pformat s)"
| "deliver (OnProcessAudio audioChunk) s = thrown_to_caller (ProcessAudio audioChunk s)"
| "deliver (OnError msg) s = thrown_to_caller (Error msg s)"
| "deliver PumpLeftProcessing s =
     Some (s\<lparr>m_audioPump := map_option (\<lambda>p. p\<lparr>pump_state := Idle\<rparr>) (m_audioPump s)\<rparr>)"

fun deliver_all :: "callback list \<Rightarrow> session \<Rightarrow> session option" where
  "deliver_all [] s = Some s"
| "deliver_all (cb # cbs) s =
     (case deliver cb s of
        None \<Rightarrow> None
      | Some s' \<Rightarrow> deliver_all cbs s')"

text \<open>
  \<^verbatim>\<open>future.wait_for(deadline)\<close> followed by \<^verbatim>\<open>future.get()\<close>: the wait ends as soon as
  the shared state of promise \<open>p\<close> holds a value, and at the deadline otherwise. Calls
  that arrive at or after the deadline are not waited for. \<open>now\<close> is the time that has
  passed since the wait began; the second component of the outcome is the time at which
  the wait ended.
\<close>

fun wait_for ::
  "nat \<Rightarrow> int \<Rightarrow> int \<Rightarrow> (int \<times> callback) list \<Rightarrow> session
     \<Rightarrow> (wait_status \<times> int \<times> session) option" where
  "wait_for p deadline now [] s =
     (case future_value p s of
        Some r \<Rightarrow> Some (future_ready r, now, s)
      | None \<Rightarrow> Some (future_timeout, max now deadline, s))"
| "wait_for p deadline now ((t, cb) # evs) s =
     (case future_value p s of
        Some r \<Rightarrow> Some (future_ready r, now, s)
      | None \<Rightarrow>
          if deadline \<le> t then Some (future_timeout, max now deadline, s)
          else
            (case deliver cb s of
               None \<Rightarrow> None
             | Some s' \<Rightarrow> wait_for p deadline (max now t) evs s'))"

subsection \<open>StartStreamingAudioAndWaitForResult\<close>

definition reco_SetFormat :: "SPXWAVEFORMATEX \<Rightarrow> bool \<Rightarrow> session \<Rightarrow> session" where
  "reco_SetFormat waveformat enroll s =
     log_effect (RecoSetFormat waveformat enroll)
       (s\<lparr>m_reco := map_option (\<lambda>r. r\<lparr>reco_format := Some waveformat\<rparr>) (m_reco s)\<rparr>)"

text \<open>
  The function handed to \<^verbatim>\<open>CreateTask\<close>. Its second component is the caller's variable
  \<^verbatim>\<open>result\<close>, captured by reference: \<open>None\<close> is the null pointer it starts as. The
  cleanup is the deleter of a guard that is created in the last statement of the function,
  so it runs when that statement is reached. The outcome is \<open>None\<close> when the process is
  killed during the wait.
\<close>

definition StartStreaming_body ::
  "bool \<Rightarrow> nat \<Rightarrow> string list \<Rightarrow> (int \<times> callback) list \<Rightarrow> session
     \<Rightarrow> (fault option \<times> RecognitionResult option \<times> session) option" where
  "StartStreaming_body enroll profile_type profileIds arrivals s =
     (let s1 = (if m_reco s = None then s\<lparr>m_reco := Some new_reco\<rparr> else s) in
      case m_audioPump s1 of
        None \<Rightarrow> Some (None, Some (CreateErrorResult ''Error accessing audio pump''), s1)
      | Some audioPump \<Rightarrow>
          let waveformat = pump_format audioPump;
              s2 = reco_SetFormat waveformat enroll s1
          in (case GetMicrophoneTimeout s2 of
                Inl f \<Rightarrow> Some (Some f, None, s2)
              | Inr timeout_ms \<Rightarrow>
                  let s3 = s2\<lparr>m_microphoneTimeoutInMS := timeout_ms, m_totalAudioinMS := 0\<rparr>;
                      p = length (promises s3);
                      s4 = s3\<lparr>promises := promises s3 @ [None], m_audioIsDone := Some p\<rparr>;
                      s5 = pump_StartPump s4;
                      deadline = m_microphoneTimeoutInMS s5 + 60000
                  in (case wait_for p deadline 0 arrivals s5 of
                        None \<Rightarrow> None
                      | Some (status, ended, s6) \<Rightarrow>
                          let s7 = log_effect (WaitFor deadline status ended) s6;
                              result =
                                (case status of
                                   future_ready r \<Rightarrow> r
                                 | future_timeout \<Rightarrow>
                                     CreateErrorResult
                                       ''Bailed out due to wait more than 1 minutes for the result of enrollment or speaker recognition.'')
                          in Some (None, Some result, CleanupAfterEachAudioPumping s7))))"

text \<open>
  The body runs as the task that \<^verbatim>\<open>CreateTask\<close> wraps, through \<^verbatim>\<open>ExecuteSync\<close>. When
  the process survives the body, the wrapper sees what the body threw and the session as
  the body left it; the caller gets its variable \<^verbatim>\<open>result\<close>.
\<close>

definition StartStreamingAudioAndWaitForResult ::
  "bool \<Rightarrow> nat \<Rightarrow> string list \<Rightarrow> (int \<times> callback) list \<Rightarrow> session
     \<Rightarrow> (fault option \<times> RecognitionResult option \<times> session) option" where
  "StartStreamingAudioAndWaitForResult enroll profile_type profileIds arrivals s =
     (case StartStreaming_body enroll profile_type profileIds arrivals s of
        None \<Rightarrow> None
      | Some (thrown, result, s1) \<Rightarrow>
          let task = CreateTask (\<lambda>s0. (thrown, s1));
              (escaped, s') = ExecuteSync task s
          in Some (escaped, result, s'))"

subsection \<open>Term\<close>

definition codec_Close :: "session \<Rightarrow> session" where
  "codec_Close s =
     (case m_codecAdapter s of
        None \<Rightarrow> s
      | Some codec \<Rightarrow>
          log_effect CodecClosed (s\<lparr>m_codecAdapter := Some (codec\<lparr>codec_closed := True\<rparr>)\<rparr>))"

definition threadService_Term :: "session \<Rightarrow> session" where
  "threadService_Term s = log_effect ThreadServiceTerm (s\<lparr>m_threadService := False\<rparr>)"

definition Term :: "session \<Rightarrow> fault option \<times> session" where
  "Term s =
     (let (thrown, s1) =
            (if pump_is_processing s then
               let s0 = pump_StopPump s in
               (case m_audioIsDone s0 of
                  None \<Rightarrow> (None, s0)
                | Some audioIsDone \<Rightarrow> Error ''Terminate the http session.'' s0)
             else (None, s))
      in case thrown of
           Some f \<Rightarrow> (Some f, s1)
         | None \<Rightarrow>
             let s2 = codec_Close s1;
                 s3 = threadService_Term s2;
                 s4 = (if m_audioPump s3 \<noteq> None then SpxTermAndClear PumpRef s3 else s3);
                 s5 = SpxTermAndClear FactoryRef s4;
                 s6 = SpxTermAndClear CodecAdapterRef s5;
                 s7 = SpxTermAndClear EngineAdapterRef s6
             in (None, s7))"

section \<open>The transport error taxonomy (transport.h)\<close>

datatype TransportError =
    TRANSPORT_ERROR_UNKNOWN
  | TRANSPORT_ERROR_REMOTE_CLOSED
  | TRANSPORT_ERROR_CONNECTION_FAILURE
  | TRANSPORT_ERROR_WEBSOCKET_UPGRADE
  | TRANSPORT_ERROR_WEBSOCKET_SEND_FRAME
  | TRANSPORT_ERROR_WEBSOCKET_ERROR
  | TRANSPORT_ERROR_DNS_FAILURE

text \<open>
  \<^verbatim>\<open>TransportErrorInfo\<close>: the reason, an integer code and the error string. The error
  callback takes a pointer to it "or NULL", which is \<open>None\<close> here.
\<close>

record TransportErrorInfo =
  reason :: TransportError
  errorCode :: int
  errorString :: string

type_synonym TransportErrorCallback_arg = "TransportErrorInfo option"

section \<open>Measures on the effect log and sample sessions\<close>

fun is_resolution :: "effect \<Rightarrow> bool" where
  "is_resolution (PromiseSetValue p r) = True"
| "is_resolution e = False"

fun is_thrown :: "effect \<Rightarrow> bool" where
  "is_thrown (CallbackThrew f) = True"
| "is_thrown e = False"

definition flushes :: "session \<Rightarrow> nat" where
  "flushes s = count_list (effects s) RecoFlushAudio"

definition resolutions :: "session \<Rightarrow> nat" where
  "resolutions s = length (filter is_resolution (effects s))"

definition callback_faults :: "session \<Rightarrow> nat" where
  "callback_faults s = length (filter is_thrown (effects s))"

text \<open>
  The duration the session accumulates over a list of chunks at a given
  bytes-per-second rate: the sum, in the 32-bit counter, of what
  \<^verbatim>\<open>FromBytesToMilisecond\<close> yields for each chunk.
\<close>

definition accumulated_ms :: "uint32_t \<Rightarrow> DataChunk list \<Rightarrow> uint32_t" where
  "accumulated_ms bytesPerSecond chunks =
     sum_list (map (\<lambda>c. (size_chunk c * 1000) div bytesPerSecond) chunks)"

text \<open>
  The duration of a list of chunks as byte length and rate give it: all bytes, times
  1000, divided by the bytes-per-second rate, in milliseconds.
\<close>

definition stream_duration_ms :: "uint32_t \<Rightarrow> DataChunk list \<Rightarrow> nat" where
  "stream_duration_ms bytesPerSecond chunks =
     (sum_list (map (\<lambda>c. unat (size_chunk c)) chunks) * 1000) div unat bytesPerSecond"

text \<open>
  \<open>rate_safe r cbs\<close>: starting from the recorded rate \<open>r\<close>, no chunk among the calls
  \<open>cbs\<close> meets a recorded rate of zero.
\<close>

fun rate_safe :: "uint32_t \<Rightarrow> callback list \<Rightarrow> bool" where
  "rate_safe r [] = True"
| "rate_safe r (OnSetFormat pformat # cbs) =
     rate_safe (case pformat of Some f \<Rightarrow> nAvgBytesPerSec f | None \<Rightarrow> r) cbs"
| "rate_safe r (OnProcessAudio audioChunk # cbs) = (r \<noteq> 0 \<and> rate_safe r cbs)"
| "rate_safe r (OnError msg # cbs) = rate_safe r cbs"
| "rate_safe r (PumpLeftProcessing # cbs) = rate_safe r cbs"

text \<open>A microphone cycle that waits on promise \<open>p\<close>, its format recorded.\<close>

definition pending_on :: "nat \<Rightarrow> session \<Rightarrow> bool" where
  "pending_on p s =
     (m_fromMicrophone s \<and> m_reco s \<noteq> None \<and> m_audioIsDone s = Some p
      \<and> p < length (promises s) \<and> promises s ! p = None \<and> m_avgBytesPerSecond s \<noteq> 0)"

definition pcm16k :: SPXWAVEFORMATEX where
  "pcm16k = \<lparr>wFormatTag = 1, nChannels = 1, nSamplesPerSec = 16000, nAvgBytesPerSec = 32000,
             nBlockAlign = 2, wBitsPerSample = 16, cbSize = 0\<rparr>"

definition microphone_pump :: AudioPump where
  "microphone_pump = \<lparr>pump_kind = CSpxInteractiveMicrophone, pump_state = Processing,
                      pump_format = pcm16k, pump_reader_is_codec = False\<rparr>"

text \<open>
  A session in the middle of a microphone cycle: the pump is processing, the promise at
  address 0 is pending, the timeout is 5000 ms and the format has been recorded.
\<close>

definition waiting_session :: session where
  "waiting_session =
     \<lparr>m_keepFactoryAlive = True, m_fromMicrophone = True, m_threadService = True,
      m_audioPump = Some microphone_pump, m_codecAdapter = None,
      m_reco = Some \<lparr>reco_format = Some pcm16k, reco_audio = []\<rparr>,
      m_audioIsDone = Some 0, promises = [None],
      m_microphoneTimeoutInMS = 5000, m_totalAudioinMS = 0, m_avgBytesPerSecond = 32000,
      properties = [], effects = [RecoSetFormat pcm16k False, PumpStarted]\<rparr>"

text \<open>Two seconds of audio at 32000 bytes per second.\<close>

definition two_seconds :: DataChunk where
  "two_seconds = \<lparr>size_chunk = 64000\<rparr>"

text \<open>
  Three chunks of 53333, 53333 and 53334 bytes: 160000 bytes, five seconds at 32000 bytes
  per second.
\<close>

definition uneven_chunks :: "DataChunk list" where
  "uneven_chunks = [\<lparr>size_chunk = 53333\<rparr>, \<lparr>size_chunk = 53333\<rparr>, \<lparr>size_chunk = 53334\<rparr>]"

text \<open>
  One chunk of 4294968 bytes, more than 134 seconds at 32000 bytes per second; its byte
  length times 1000 does not fit 32 bits.
\<close>

definition long_chunk :: DataChunk where
  "long_chunk = \<lparr>size_chunk = 4294968\<rparr>"

text \<open>A session right after construction and \<^verbatim>\<open>Init\<close>, with no property set.\<close>

definition fresh_session :: session where
  "fresh_session =
     \<lparr>m_keepFactoryAlive = True, m_fromMicrophone = False, m_threadService = True,
      m_audioPump = None, m_codecAdapter = None, m_reco = None,
      m_audioIsDone = None, promises = [],
      m_microphoneTimeoutInMS = 5000, m_totalAudioinMS = 0, m_avgBytesPerSecond = 0,
      properties = [], effects = []\<rparr>"

definition timeout_key :: string where
  "timeout_key = ''SPEECH-MicrophoneTimeoutInSpeakerRecognitionInMilliseconds''"

text \<open>A stream that declares MP3 (format tag 0x55), so that a codec adapter is needed.\<close>

definition mp3_stream :: AudioStream where
  "mp3_stream = \<lparr>stream_format = pcm16k\<lparr>wFormatTag := 0x55\<rparr>\<rparr>"

text \<open>A stream that declares PCM.\<close>

definition pcm_stream :: AudioStream where
  "pcm_stream = \<lparr>stream_format = pcm16k\<rparr>"

text \<open>
  A session in the middle of a cycle fed from that stream: the codec adapter is in place,
  the pump is processing and the promise at address 0 is pending.
\<close>

definition stream_pump :: AudioPump where
  "stream_pump = \<lparr>pump_kind = CSpxAudioPump, pump_state = Processing,
                  pump_format = stream_format mp3_stream, pump_reader_is_codec = True\<rparr>"

definition waiting_stream_session :: session where
  "waiting_stream_session =
     \<lparr>m_keepFactoryAlive = True, m_fromMicrophone = False, m_threadService = True,
      m_audioPump = Some stream_pump,
      m_codecAdapter = Some \<lparr>codec_format = Some (stream_format mp3_stream),
                              codec_closed = False\<rparr>,
      m_reco = Some \<lparr>reco_format = Some (stream_format mp3_stream), reco_audio = []\<rparr>,
      m_audioIsDone = Some 0, promises = [None],
      m_microphoneTimeoutInMS = 5000, m_totalAudioinMS = 0, m_avgBytesPerSecond = 32000,
      properties = [],
      effects = [RecoSetFormat (stream_format mp3_stream) False, PumpStarted]\<rparr>"

text \<open>\<open>occurs_before a b xs\<close>: \<open>a\<close> occurs in \<open>xs\<close>, and \<open>b\<close> occurs after its first occurrence.\<close>

definition occurs_before :: "'a \<Rightarrow> 'a \<Rightarrow> 'a list \<Rightarrow> bool" where
  "occurs_before a b xs = (b \<in> set (drop 1 (dropWhile (\<lambda>x. x \<noteq> a) xs)))"

text \<open>
  The six categories the specification lists: remote-closed, connection-failure,
  protocol-upgrade-failure, send-frame-failure, protocol-error, name-resolution-failure.
\<close>

definition spec_categories :: "TransportError list" where
  "spec_categories =
     [TRANSPORT_ERROR_REMOTE_CLOSED, TRANSPORT_ERROR_CONNECTION_FAILURE,
      TRANSPORT_ERROR_WEBSOCKET_UPGRADE, TRANSPORT_ERROR_WEBSOCKET_SEND_FRAME,
      TRANSPORT_ERROR_WEBSOCKET_ERROR, TRANSPORT_ERROR_DNS_FAILURE]"

definition bailed_out :: RecognitionResult where
  "bailed_out =
     ErrorResult ''Bailed out due to wait more than 1 minutes for the result of enrollment or speaker recognition.''"

text \<open>
  The session as the wait of a cycle finds it: the engine adapter exists and has the
  pump's format, the timeout \<open>t\<close> is stored, the counter is zero, a fresh promise is
  appended to the store and the pump is started.
\<close>

definition wait_begins :: "bool \<Rightarrow> int \<Rightarrow> AudioPump \<Rightarrow> session \<Rightarrow> session" where
  "wait_begins enroll t audioPump s =
     pump_StartPump
       ((reco_SetFormat (pump_format audioPump) enroll
           (if m_reco s = None then s\<lparr>m_reco := Some new_reco\<rparr> else s))
          \<lparr>m_microphoneTimeoutInMS := t, m_totalAudioinMS := 0,
           promises := promises s @ [None], m_audioIsDone := Some (length (promises s))\<rparr>)"

text \<open>Sessions reached through the initializers, and the calls of one short cycle.\<close>

definition idle_microphone_session :: session where
  "idle_microphone_session = InitFromMicrophone pcm16k fresh_session"

definition idle_stream_session :: session where
  "idle_stream_session = InitFromStream mp3_stream True fresh_session"

definition abc_timeout_session :: session where
  "abc_timeout_session =
     InitFromMicrophone pcm16k (fresh_session\<lparr>properties := [(timeout_key, ''abc'')]\<rparr>)"

definition double_zero_session :: session where
  "double_zero_session = fresh_session\<lparr>properties := [(timeout_key, ''00'')]\<rparr>"

definition fast_rate_session :: session where
  "fast_rate_session =
     fresh_session\<lparr>properties := [(''OutputPCMChannelCount'', ''2''),
                                   (''OutputPCMSamplerate'', ''fast'')]\<rparr>"

definition one_cycle :: "(int \<times> callback) list" where
  "one_cycle =
     [(10, OnSetFormat (Some pcm16k)), (20, OnProcessAudio two_seconds), (30, OnSetFormat None)]"

text \<open>A microphone cycle that an error ends after two seconds of audio.\<close>

definition failing_cycle :: "(int \<times> callback) list" where
  "failing_cycle =
     [(10, OnSetFormat (Some pcm16k)), (20, OnProcessAudio two_seconds),
      (30, OnError ''microphone unplugged'')]"

text \<open>The second half of \<^verbatim>\<open>Term\<close>, from closing the codec adapter on.\<close>

definition teardown :: "session \<Rightarrow> session" where
  "teardown s =
     (let s2 = codec_Close s;
          s3 = threadService_Term s2;
          s4 = (if m_audioPump s3 \<noteq> None then SpxTermAndClear PumpRef s3 else s3);
          s5 = SpxTermAndClear FactoryRef s4;
          s6 = SpxTermAndClear CodecAdapterRef s5
      in SpxTermAndClear EngineAdapterRef s6)"

section \<open>Properties\<close>

lemmas eval_defs = idle_microphone_session_def idle_stream_session_def abc_timeout_session_def
  double_zero_session_def fast_rate_session_def
  one_cycle_def failing_cycle_def pcm_stream_def uneven_chunks_def stream_duration_ms_def
  fresh_session_def timeout_key_def mp3_stream_def pcm16k_def two_seconds_def
  InitFromMicrophone_def InitFromMicrophone_task_def InitFromStream_def InitFromStream_task_def
  InitFromFile_def InitFromFile_task_def
  ExecuteAsync_def ExecuteSync_def CreateTask_def Error_def set_value_def log_effect_def
  CreateErrorResult_def SetFormat_def ProcessAudio_def reco_FlushAudio_def reco_GetResult_def
  reco_ProcessAudio_def reco_SetFormat_def FromBytesToMilisecond_def thrown_to_caller_def
  StartStreamingAudioAndWaitForResult_def StartStreaming_body_def GetMicrophoneTimeout_def
  GetStringValue_def stoi_def strip_sign_def isspace_def isdigit_def digit_value_def what_def
  pump_StartPump_def pump_StopPump_def StopPump_def pump_is_processing_def
  CleanupAfterEachAudioPumping_def future_value_def new_reco_def WAVE_FORMAT_PCM_def
  output_format_overrides_def default_output_format_def attach_stream_pump_def bailed_out_def
  Let_def

subsection \<open>The sample sessions are reached by the session's own operations\<close>

lemma waiting_session_reached:
  "deliver (OnSetFormat (Some pcm16k))
     (wait_begins False 5000 (microphone_pump\<lparr>pump_state := Idle\<rparr>) idle_microphone_session)
   = Some waiting_session"
  by (simp add: waiting_session_def microphone_pump_def wait_begins_def eval_defs)

lemma waiting_stream_session_reached:
  "deliver (OnSetFormat (Some pcm16k))
     (wait_begins False 5000 (stream_pump\<lparr>pump_state := Idle\<rparr>) idle_stream_session)
   = Some waiting_stream_session"
  by (simp add: waiting_stream_session_def stream_pump_def wait_begins_def eval_defs)

lemma sample_pumps:
  "m_audioPump idle_microphone_session = Some (microphone_pump\<lparr>pump_state := Idle\<rparr>)
   \<and> m_audioPump idle_stream_session = Some (stream_pump\<lparr>pump_state := Idle\<rparr>)
   \<and> GetMicrophoneTimeout idle_microphone_session = Inr 5000
   \<and> GetMicrophoneTimeout idle_stream_session = Inr 5000"
  by (simp add: microphone_pump_def stream_pump_def eval_defs)

subsection \<open>Duration accounting\<close>







subsection \<open>The end-of-stream path under the microphone timeout\<close>

lemma done_step:
  assumes "m_audioIsDone s = None" and "m_reco s \<noteq> None" and "m_avgBytesPerSecond s \<noteq> 0"
  shows "\<exists>s'. deliver (OnProcessAudio c) s = Some s'
       \<and> m_audioIsDone s' = None \<and> m_reco s' \<noteq> None
       \<and> m_avgBytesPerSecond s' = m_avgBytesPerSecond s
       \<and> promises s' = promises s \<and> flushes s' = flushes s
       \<and> resolutions s' = resolutions s \<and> callback_faults s' = callback_faults s"
  using assms
  by (auto simp: ProcessAudio_def SetFormat_def reco_ProcessAudio_def log_effect_def
      FromBytesToMilisecond_def thrown_to_caller_def Let_def flushes_def resolutions_def
      callback_faults_def)

lemma done_all:
  assumes "m_audioIsDone s = None" and "m_reco s \<noteq> None" and "m_avgBytesPerSecond s \<noteq> 0"
  shows "\<exists>s'. deliver_all (map OnProcessAudio cs) s = Some s'
       \<and> m_audioIsDone s' = None \<and> m_reco s' \<noteq> None
       \<and> m_avgBytesPerSecond s' = m_avgBytesPerSecond s
       \<and> promises s' = promises s \<and> flushes s' = flushes s
       \<and> resolutions s' = resolutions s \<and> callback_faults s' = callback_faults s"
  using assms
proof (induction cs arbitrary: s)
  case Nil
  then show ?case by simp
next
  case (Cons c cs)
  from done_step[OF Cons.prems, of c]
  obtain s1 where s1: "deliver (OnProcessAudio c) s = Some s1"
      "m_audioIsDone s1 = None" "m_reco s1 \<noteq> None"
      "m_avgBytesPerSecond s1 = m_avgBytesPerSecond s"
      "promises s1 = promises s" "flushes s1 = flushes s"
      "resolutions s1 = resolutions s" "callback_faults s1 = callback_faults s"
    by blast
  from s1(4) Cons.prems(3) have avg: "m_avgBytesPerSecond s1 \<noteq> 0" by simp
  from Cons.IH[OF s1(2,3) avg]
  obtain s' where s': "deliver_all (map OnProcessAudio cs) s1 = Some s'"
      "m_audioIsDone s' = None" "m_reco s' \<noteq> None"
      "m_avgBytesPerSecond s' = m_avgBytesPerSecond s1"
      "promises s' = promises s1" "flushes s' = flushes s1"
      "resolutions s' = resolutions s1" "callback_faults s' = callback_faults s1"
    by blast
  from s1 s' show ?case by simp
qed

lemma pending_step_below:
  assumes "pending_on p s"
    and "\<not> m_microphoneTimeoutInMS s
            \<le> uint (m_totalAudioinMS s + (size_chunk c * 1000) div m_avgBytesPerSecond s)"
  shows "\<exists>s'. deliver (OnProcessAudio c) s = Some s'
       \<and> pending_on p s'
       \<and> m_totalAudioinMS s'
           = m_totalAudioinMS s + (size_chunk c * 1000) div m_avgBytesPerSecond s
       \<and> m_avgBytesPerSecond s' = m_avgBytesPerSecond s
       \<and> m_microphoneTimeoutInMS s' = m_microphoneTimeoutInMS s
       \<and> promises s' = promises s \<and> flushes s' = flushes s
       \<and> resolutions s' = resolutions s \<and> callback_faults s' = callback_faults s"
  using assms
  by (auto simp: pending_on_def ProcessAudio_def reco_ProcessAudio_def log_effect_def
      FromBytesToMilisecond_def thrown_to_caller_def Let_def flushes_def resolutions_def
      callback_faults_def)

lemma pending_step_reached:
  assumes "pending_on p s"
    and "m_microphoneTimeoutInMS s
           \<le> uint (m_totalAudioinMS s + (size_chunk c * 1000) div m_avgBytesPerSecond s)"
  shows "\<exists>s'. deliver (OnProcessAudio c) s = Some s'
       \<and> m_audioIsDone s' = None \<and> m_reco s' \<noteq> None \<and> m_avgBytesPerSecond s' \<noteq> 0
       \<and> (\<exists>audio. promises s' = (promises s)[p := Some (AdapterResult audio)])
       \<and> flushes s' = Suc (flushes s) \<and> resolutions s' = Suc (resolutions s)
       \<and> callback_faults s' = callback_faults s"
  using assms
  by (auto simp: pending_on_def ProcessAudio_def SetFormat_def reco_ProcessAudio_def log_effect_def
      FromBytesToMilisecond_def thrown_to_caller_def Let_def flushes_def resolutions_def
      callback_faults_def set_value_def reco_FlushAudio_def reco_GetResult_def)

lemma accumulated_ms_Cons:
  "accumulated_ms b (c # cs) = (size_chunk c * 1000) div b + accumulated_ms b cs"
  by (simp add: accumulated_ms_def)

lemma accumulated_ms_append:
  "accumulated_ms b (xs @ ys) = accumulated_ms b xs + accumulated_ms b ys"
  by (simp add: accumulated_ms_def)

lemma deliver_all_append:
  "deliver_all (xs @ ys) s =
     (case deliver_all xs s of None \<Rightarrow> None | Some s' \<Rightarrow> deliver_all ys s')"
  by (induction xs arbitrary: s) (simp_all split: option.splits)

lemma below_timeout:
  assumes "pending_on p s" and "j \<le> length cs"
    and "\<forall>i. 0 < i \<and> i \<le> j \<longrightarrow>
           \<not> m_microphoneTimeoutInMS s
               \<le> uint (m_totalAudioinMS s + accumulated_ms (m_avgBytesPerSecond s) (take i cs))"
  shows "\<exists>s'. deliver_all (map OnProcessAudio (take j cs)) s = Some s'
       \<and> pending_on p s'
       \<and> m_totalAudioinMS s'
           = m_totalAudioinMS s + accumulated_ms (m_avgBytesPerSecond s) (take j cs)
       \<and> m_avgBytesPerSecond s' = m_avgBytesPerSecond s
       \<and> m_microphoneTimeoutInMS s' = m_microphoneTimeoutInMS s
       \<and> promises s' = promises s \<and> flushes s' = flushes s
       \<and> resolutions s' = resolutions s \<and> callback_faults s' = callback_faults s"
  using assms
proof (induction cs arbitrary: s j)
  case Nil
  then show ?case by (simp add: accumulated_ms_def)
next
  case (Cons c cs)
  show ?case
  proof (cases j)
    case 0
    with Cons.prems(1) show ?thesis by (simp add: accumulated_ms_def)
  next
    case (Suc j')
    let ?ms = "(size_chunk c * 1000) div m_avgBytesPerSecond s"
    from Cons.prems(3) Suc
    have "\<not> m_microphoneTimeoutInMS s
              \<le> uint (m_totalAudioinMS s + accumulated_ms (m_avgBytesPerSecond s) (take 1 (c # cs)))"
      by (metis le_add1 plus_1_eq_Suc zero_less_one)
    then have first: "\<not> m_microphoneTimeoutInMS s \<le> uint (m_totalAudioinMS s + ?ms)"
      by (simp add: accumulated_ms_def)
    from pending_step_below[OF Cons.prems(1) first]
    obtain s1 where s1: "deliver (OnProcessAudio c) s = Some s1" "pending_on p s1"
        "m_totalAudioinMS s1 = m_totalAudioinMS s + ?ms"
        "m_avgBytesPerSecond s1 = m_avgBytesPerSecond s"
        "m_microphoneTimeoutInMS s1 = m_microphoneTimeoutInMS s"
        "promises s1 = promises s" "flushes s1 = flushes s"
        "resolutions s1 = resolutions s" "callback_faults s1 = callback_faults s"
      by blast
    have j': "j' \<le> length cs" using Cons.prems(2) Suc by simp
    have rest: "\<forall>i. 0 < i \<and> i \<le> j' \<longrightarrow>
           \<not> m_microphoneTimeoutInMS s1
               \<le> uint (m_totalAudioinMS s1 + accumulated_ms (m_avgBytesPerSecond s1) (take i cs))"
    proof (intro allI impI)
      fix i assume i: "0 < i \<and> i \<le> j'"
      then have "0 < Suc i \<and> Suc i \<le> j" using Suc by simp
      with Cons.prems(3)
      have "\<not> m_microphoneTimeoutInMS s
               \<le> uint (m_totalAudioinMS s
                         + accumulated_ms (m_avgBytesPerSecond s) (take (Suc i) (c # cs)))"
        by blast
      then show "\<not> m_microphoneTimeoutInMS s1
               \<le> uint (m_totalAudioinMS s1 + accumulated_ms (m_avgBytesPerSecond s1) (take i cs))"
        by (simp add: s1(3,4,5) accumulated_ms_Cons add.assoc)
    qed
    from Cons.IH[OF s1(2) j' rest]
    obtain s' where s': "deliver_all (map OnProcessAudio (take j' cs)) s1 = Some s'"
        "pending_on p s'"
        "m_totalAudioinMS s'
           = m_totalAudioinMS s1 + accumulated_ms (m_avgBytesPerSecond s1) (take j' cs)"
        "m_avgBytesPerSecond s' = m_avgBytesPerSecond s1"
        "m_microphoneTimeoutInMS s' = m_microphoneTimeoutInMS s1"
        "promises s' = promises s1" "flushes s' = flushes s1"
        "resolutions s' = resolutions s1" "callback_faults s' = callback_faults s1"
      by blast
    from s1 s' Suc show ?thesis
      by (simp add: accumulated_ms_Cons add.assoc)
  qed
qed

text \<open>
  C4, the claim as it stands, fails: the session counts every chunk on its own, in whole
  milliseconds rounded down, from a product that wraps in 32 bits. Three chunks of 53333,
  53333 and 53334 bytes at 32000 bytes per second are five seconds of audio, which reaches
  the timeout of 5000 ms; the session has counted 4998 ms after them, has not flushed the
  engine adapter and has left the promise unresolved. One chunk of 4294968 bytes is more
  than 134 seconds of audio; the session counts 0 ms for it and does not flush either.
\<close>

theorem C4_rounding_misses_timeout:
  "m_fromMicrophone waiting_session
   \<and> m_microphoneTimeoutInMS waiting_session = 5000
   \<and> stream_duration_ms (m_avgBytesPerSecond waiting_session) uneven_chunks = 5000
   \<and> map_option m_totalAudioinMS
        (deliver_all (map OnProcessAudio uneven_chunks) waiting_session) = Some 4998
   \<and> map_option flushes
        (deliver_all (map OnProcessAudio uneven_chunks) waiting_session) = Some 0
   \<and> map_option (future_value 0)
        (deliver_all (map OnProcessAudio uneven_chunks) waiting_session) = Some None
   \<and> stream_duration_ms (m_avgBytesPerSecond waiting_session) [long_chunk] = 134217
   \<and> map_option m_totalAudioinMS
        (deliver_all (map OnProcessAudio [long_chunk]) waiting_session) = Some 0
   \<and> map_option flushes
        (deliver_all (map OnProcessAudio [long_chunk]) waiting_session) = Some 0
   \<and> map_option (future_value 0)
        (deliver_all (map OnProcessAudio [long_chunk]) waiting_session) = Some None"
  by (simp add: waiting_session_def uneven_chunks_def long_chunk_def stream_duration_ms_def
      flushes_def ProcessAudio_def SetFormat_def reco_ProcessAudio_def log_effect_def
      FromBytesToMilisecond_def thrown_to_caller_def future_value_def Let_def)

text \<open>
  C4, amended: in a microphone cycle that waits on its unresolved promise, with the engine
  adapter present and a nonzero rate recorded, let chunk \<open>k\<close> be the first at which the
  duration the session accumulates in its 32-bit counter reaches the timeout, where every
  chunk counts (byte length times 1000, in 32 bits) divided by the rate, rounded down to
  whole milliseconds. Then \<^verbatim>\<open>ProcessAudio\<close> has not flushed the engine adapter or resolved the
  promise before that chunk; at that chunk it flushes the adapter and resolves the promise
  with the adapter's result, without waiting for the pump to end; over the whole stream
  that happens exactly once, no call throws, and the chunks after chunk \<open>k\<close> leave the
  promise's value as it is.
\<close>

theorem C4_timeout_ends_stream_once:
  assumes "m_fromMicrophone s" and "m_reco s \<noteq> None"
    and "m_audioIsDone s = Some p" and "p < length (promises s)" and "promises s ! p = None"
    and "m_avgBytesPerSecond s \<noteq> 0"
    and "0 < k" and "k \<le> length chunks"
    and "m_microphoneTimeoutInMS s
           \<le> uint (m_totalAudioinMS s + accumulated_ms (m_avgBytesPerSecond s) (take k chunks))"
    and "\<forall>i. 0 < i \<and> i < k \<longrightarrow>
           uint (m_totalAudioinMS s + accumulated_ms (m_avgBytesPerSecond s) (take i chunks))
             < m_microphoneTimeoutInMS s"
  shows "\<exists>before at_k final.
           deliver_all (map OnProcessAudio (take (k - 1) chunks)) s = Some before
         \<and> deliver_all (map OnProcessAudio (take k chunks)) s = Some at_k
         \<and> deliver_all (map OnProcessAudio chunks) s = Some final
         \<and> flushes before = flushes s \<and> resolutions before = resolutions s
         \<and> future_value p before = None
         \<and> flushes at_k = flushes s + 1 \<and> resolutions at_k = resolutions s + 1
         \<and> (\<exists>audio. future_value p at_k = Some (AdapterResult audio))
         \<and> flushes final = flushes s + 1 \<and> resolutions final = resolutions s + 1
         \<and> future_value p final = future_value p at_k
         \<and> m_audioIsDone final = None
         \<and> callback_faults final = callback_faults s"
proof -
  have pend: "pending_on p s"
    using assms(1-6) by (simp add: pending_on_def)
  from assms(7) obtain j where k: "k = Suc j" by (cases k) auto
  have j: "j \<le> length chunks" "j < length chunks" using assms(8) k by simp_all
  have below: "\<forall>i. 0 < i \<and> i \<le> j \<longrightarrow>
           \<not> m_microphoneTimeoutInMS s
               \<le> uint (m_totalAudioinMS s + accumulated_ms (m_avgBytesPerSecond s) (take i chunks))"
    using assms(10) k by (simp add: not_le)
  from below_timeout[OF pend j(1) below]
  obtain b where b: "deliver_all (map OnProcessAudio (take j chunks)) s = Some b"
      "pending_on p b"
      "m_totalAudioinMS b
         = m_totalAudioinMS s + accumulated_ms (m_avgBytesPerSecond s) (take j chunks)"
      "m_avgBytesPerSecond b = m_avgBytesPerSecond s"
      "m_microphoneTimeoutInMS b = m_microphoneTimeoutInMS s"
      "promises b = promises s" "flushes b = flushes s"
      "resolutions b = resolutions s" "callback_faults b = callback_faults s"
    by blast
  let ?c = "chunks ! j"
  have tk: "take k chunks = take j chunks @ [?c]"
    using j(2) k by (simp add: take_Suc_conv_app_nth)
  have reach: "m_microphoneTimeoutInMS b
           \<le> uint (m_totalAudioinMS b + (size_chunk ?c * 1000) div m_avgBytesPerSecond b)"
    using assms(9) b(3,4,5) by (simp add: tk accumulated_ms_append accumulated_ms_def add.assoc)
  from pending_step_reached[OF b(2) reach]
  obtain a audio where a: "deliver (OnProcessAudio ?c) b = Some a"
      "m_audioIsDone a = None" "m_reco a \<noteq> None" "m_avgBytesPerSecond a \<noteq> 0"
      "promises a = (promises b)[p := Some (AdapterResult audio)]"
      "flushes a = Suc (flushes b)" "resolutions a = Suc (resolutions b)"
      "callback_faults a = callback_faults b"
    by blast
  have at_k: "deliver_all (map OnProcessAudio (take k chunks)) s = Some a"
    using a(1) by (simp add: tk deliver_all_append b(1))
  from done_all[OF a(2,3,4), of "drop k chunks"]
  obtain f where f: "deliver_all (map OnProcessAudio (drop k chunks)) a = Some f"
      "m_audioIsDone f = None" "promises f = promises a" "flushes f = flushes a"
      "resolutions f = resolutions a" "callback_faults f = callback_faults a"
    by blast
  have "map OnProcessAudio chunks
          = map OnProcessAudio (take k chunks) @ map OnProcessAudio (drop k chunks)"
    by (metis append_take_drop_id map_append)
  then have final: "deliver_all (map OnProcessAudio chunks) s = Some f"
    by (simp add: deliver_all_append at_k f(1))
  have before: "deliver_all (map OnProcessAudio (take (k - 1) chunks)) s = Some b"
    using b(1) k by simp
  have vb: "future_value p b = None"
    using assms(4,5) b(6) by (simp add: future_value_def)
  have va: "future_value p a = Some (AdapterResult audio)"
    using assms(4) a(5) b(6) by (simp add: future_value_def)
  have vf: "future_value p f = future_value p a"
    using f(3) by (simp add: future_value_def)
  from before at_k final vb va vf a b f show ?thesis
    by simp
qed

theorem C4_timeout_ends_stream_once_witness:
  "m_fromMicrophone waiting_session \<and> m_reco waiting_session \<noteq> None
   \<and> m_audioIsDone waiting_session = Some 0 \<and> 0 < length (promises waiting_session)
   \<and> promises waiting_session ! 0 = None \<and> m_avgBytesPerSecond waiting_session \<noteq> 0
   \<and> m_microphoneTimeoutInMS waiting_session
        \<le> uint (m_totalAudioinMS waiting_session
                  + accumulated_ms (m_avgBytesPerSecond waiting_session)
                      (take 3 [two_seconds, two_seconds, two_seconds, two_seconds]))
   \<and> uint (m_totalAudioinMS waiting_session
             + accumulated_ms (m_avgBytesPerSecond waiting_session)
                 (take 2 [two_seconds, two_seconds, two_seconds, two_seconds]))
        < m_microphoneTimeoutInMS waiting_session
   \<and> map_option flushes
        (deliver_all (map OnProcessAudio [two_seconds, two_seconds]) waiting_session) = Some 0
   \<and> map_option (future_value 0)
        (deliver_all (map OnProcessAudio [two_seconds, two_seconds]) waiting_session)
       = Some None
   \<and> map_option flushes
        (deliver_all (map OnProcessAudio [two_seconds, two_seconds, two_seconds])
           waiting_session) = Some 1
   \<and> map_option flushes
        (deliver_all (map OnProcessAudio [two_seconds, two_seconds, two_seconds, two_seconds])
           waiting_session) = Some 1
   \<and> map_option resolutions
        (deliver_all (map OnProcessAudio [two_seconds, two_seconds, two_seconds, two_seconds])
           waiting_session) = Some 1
   \<and> map_option callback_faults
        (deliver_all (map OnProcessAudio [two_seconds, two_seconds, two_seconds, two_seconds])
           waiting_session) = Some 0"
proof -
  let ?cs = "[two_seconds, two_seconds, two_seconds, two_seconds]"
  have h1: "m_fromMicrophone waiting_session" by (simp add: waiting_session_def)
  have h2: "m_reco waiting_session \<noteq> None" by (simp add: waiting_session_def)
  have h3: "m_audioIsDone waiting_session = Some 0" by (simp add: waiting_session_def)
  have h4: "0 < length (promises waiting_session)" by (simp add: waiting_session_def)
  have h5: "promises waiting_session ! 0 = None" by (simp add: waiting_session_def)
  have h6: "m_avgBytesPerSecond waiting_session \<noteq> 0" by (simp add: waiting_session_def)
  have h7: "(0::nat) < 3" by simp
  have h8: "3 \<le> length ?cs" by simp
  have h9: "m_microphoneTimeoutInMS waiting_session
        \<le> uint (m_totalAudioinMS waiting_session
                  + accumulated_ms (m_avgBytesPerSecond waiting_session) (take 3 ?cs))"
    by (simp add: waiting_session_def accumulated_ms_def two_seconds_def)
  have two: "uint (m_totalAudioinMS waiting_session
             + accumulated_ms (m_avgBytesPerSecond waiting_session) (take 2 ?cs))
        < m_microphoneTimeoutInMS waiting_session"
    by (simp add: waiting_session_def accumulated_ms_def two_seconds_def)
  have one: "uint (m_totalAudioinMS waiting_session
             + accumulated_ms (m_avgBytesPerSecond waiting_session) (take 1 ?cs))
        < m_microphoneTimeoutInMS waiting_session"
    by (simp add: waiting_session_def accumulated_ms_def two_seconds_def)
  have h10: "\<forall>i. 0 < i \<and> i < 3 \<longrightarrow>
           uint (m_totalAudioinMS waiting_session
                 + accumulated_ms (m_avgBytesPerSecond waiting_session) (take i ?cs))
             < m_microphoneTimeoutInMS waiting_session"
  proof (intro allI impI)
    fix i :: nat assume "0 < i \<and> i < 3"
    then have "i = 1 \<or> i = 2" by arith
    with one two show "uint (m_totalAudioinMS waiting_session
                 + accumulated_ms (m_avgBytesPerSecond waiting_session) (take i ?cs))
             < m_microphoneTimeoutInMS waiting_session"
      by auto
  qed
  have f0: "flushes waiting_session = 0" "resolutions waiting_session = 0"
    "callback_faults waiting_session = 0"
    by (simp_all add: waiting_session_def flushes_def resolutions_def callback_faults_def)
  from C4_timeout_ends_stream_once[OF h1 h2 h3 h4 h5 h6 h7 h8 h9 h10]
  obtain before at_k final where r:
      "deliver_all (map OnProcessAudio (take (3 - 1) ?cs)) waiting_session = Some before"
      "deliver_all (map OnProcessAudio (take 3 ?cs)) waiting_session = Some at_k"
      "deliver_all (map OnProcessAudio ?cs) waiting_session = Some final"
      "flushes before = flushes waiting_session" "future_value 0 before = None"
      "flushes at_k = flushes waiting_session + 1"
      "flushes final = flushes waiting_session + 1"
      "resolutions final = resolutions waiting_session + 1"
      "callback_faults final = callback_faults waiting_session"
    by blast
  have t2: "take (3 - 1) ?cs = [two_seconds, two_seconds]"
    and t3: "take 3 ?cs = [two_seconds, two_seconds, two_seconds]"
    by simp_all
  from r(1) t2 have r1: "deliver_all (map OnProcessAudio [two_seconds, two_seconds])
                           waiting_session = Some before"
    by simp
  from r(2) t3 have r2: "deliver_all (map OnProcessAudio [two_seconds, two_seconds, two_seconds])
                           waiting_session = Some at_k"
    by simp
  from h1 h2 h3 h4 h5 h6 h9 two r1 r2 r(3) r(4-9) f0 show ?thesis
    by simp
qed

subsection \<open>Resolving the promise twice\<close>

text \<open>
  C1: a second attempt to resolve the promise of a cycle has to be a no-op. In the session
  that waits on promise 0, \<^verbatim>\<open>Error\<close> resolves the promise and leaves
  \<open>m_audioIsDone\<close> pointing to it; the flush path of \<^verbatim>\<open>SetFormat(nullptr)\<close> that
  arrives afterwards, and likewise a second \<^verbatim>\<open>Error\<close>, calls \<^verbatim>\<open>set_value\<close> on
  the satisfied promise, which throws. In the other order the flush path clears the
  pointer and the later \<^verbatim>\<open>Error\<close> changes nothing.
\<close>

theorem C1_flush_after_error_throws:
  "fst (Error ''pump failed'' waiting_session) = None
   \<and> future_value 0 (snd (Error ''pump failed'' waiting_session))
        = Some (ErrorResult ''pump failed'')
   \<and> m_audioIsDone (snd (Error ''pump failed'' waiting_session)) = Some 0
   \<and> fst (SetFormat None (snd (Error ''pump failed'' waiting_session)))
        = Some promise_already_satisfied
   \<and> fst (Error ''again'' (snd (Error ''pump failed'' waiting_session)))
        = Some promise_already_satisfied
   \<and> Error ''late'' (snd (SetFormat None waiting_session))
        = (None, snd (SetFormat None waiting_session))"
  by (simp add: waiting_session_def SetFormat_def Error_def set_value_def log_effect_def
      CreateErrorResult_def reco_FlushAudio_def reco_GetResult_def Let_def future_value_def)

text \<open>
  X1: in the other order the promise is single-use. When the flush path of
  \<^verbatim>\<open>SetFormat(nullptr)\<close> finds the engine adapter and an unresolved pending promise, it
  resolves the promise without a fault and clears \<open>m_audioIsDone\<close>; a later \<^verbatim>\<open>Error\<close>
  and a later \<^verbatim>\<open>SetFormat(nullptr)\<close> then change nothing and throw nothing.
\<close>

theorem X1_after_flush_nothing_resolves:
  assumes "m_reco s \<noteq> None" and "m_audioIsDone s = Some p"
    and "p < length (promises s)" and "promises s ! p = None"
  shows "fst (SetFormat None s) = None
       \<and> m_audioIsDone (snd (SetFormat None s)) = None
       \<and> future_value p (snd (SetFormat None s)) \<noteq> None
       \<and> Error msg (snd (SetFormat None s)) = (None, snd (SetFormat None s))
       \<and> SetFormat None (snd (SetFormat None s)) = (None, snd (SetFormat None s))"
  using assms
  by (auto simp: SetFormat_def Error_def set_value_def log_effect_def reco_FlushAudio_def
      reco_GetResult_def future_value_def Let_def)

theorem X1_after_flush_nothing_resolves_witness:
  "m_reco waiting_session \<noteq> None \<and> m_audioIsDone waiting_session = Some 0
   \<and> 0 < length (promises waiting_session) \<and> promises waiting_session ! 0 = None
   \<and> m_audioIsDone (snd (SetFormat None waiting_session)) = None
   \<and> Error ''late'' (snd (SetFormat None waiting_session))
       = (None, snd (SetFormat None waiting_session))"
proof -
  have h1: "m_reco waiting_session \<noteq> None" by (simp add: waiting_session_def)
  have h2: "m_audioIsDone waiting_session = Some 0" by (simp add: waiting_session_def)
  have h3: "0 < length (promises waiting_session)" by (simp add: waiting_session_def)
  have h4: "promises waiting_session ! 0 = None" by (simp add: waiting_session_def)
  from X1_after_flush_nothing_resolves[OF h1 h2 h3 h4, of "''late''"] h1 h2 h3 h4
  show ?thesis by blast
qed

lemma Error_frame:
  "m_audioPump (snd (Error msg s)) = m_audioPump s
   \<and> effects (snd (Error msg s))
       = effects s @ (if fst (Error msg s) = None \<and> m_audioIsDone s \<noteq> None
                      then [PromiseSetValue (the (m_audioIsDone s)) (ErrorResult msg)] else [])"
  by (auto simp: Error_def set_value_def log_effect_def CreateErrorResult_def split: option.splits)

subsection \<open>The streaming call: what it reads and what it leaves\<close>

lemma deliver_frame:
  assumes "deliver cb s = Some s'"
  shows "m_codecAdapter s' = m_codecAdapter s
       \<and> (m_reco s' = None) = (m_reco s = None)
       \<and> properties s' = properties s
       \<and> m_fromMicrophone s' = m_fromMicrophone s
       \<and> (m_audioPump s' = None) = (m_audioPump s = None)
       \<and> (\<exists>xs. effects s' = effects s @ xs)"
  using assms
  by (cases cb)
     (auto simp: SetFormat_def ProcessAudio_def Error_def set_value_def log_effect_def
        reco_FlushAudio_def reco_GetResult_def reco_ProcessAudio_def thrown_to_caller_def
        FromBytesToMilisecond_def Let_def
        split: option.splits prod.splits if_splits sum.splits)

lemma deliver_returns:
  assumes "m_reco s \<noteq> None"
    and "m_fromMicrophone s \<longrightarrow> rate_safe (m_avgBytesPerSecond s) (cb # cbs)"
  shows "\<exists>s'. deliver cb s = Some s'
       \<and> (m_fromMicrophone s' \<longrightarrow> rate_safe (m_avgBytesPerSecond s') cbs)"
  using assms
  by (cases cb)
     (auto simp: SetFormat_def ProcessAudio_def Error_def set_value_def log_effect_def
        reco_FlushAudio_def reco_GetResult_def reco_ProcessAudio_def thrown_to_caller_def
        FromBytesToMilisecond_def Let_def
        split: option.splits prod.splits if_splits sum.splits)

lemma wait_for_returns:
  assumes "m_reco s \<noteq> None"
    and "m_fromMicrophone s \<longrightarrow> rate_safe (m_avgBytesPerSecond s) (map snd evs)"
  shows "\<exists>status ended s'. wait_for p d now evs s = Some (status, ended, s')
       \<and> ended \<le> max now d
       \<and> status = (case future_value p s' of None \<Rightarrow> future_timeout
                                             | Some r \<Rightarrow> future_ready r)
       \<and> m_reco s' \<noteq> None
       \<and> m_codecAdapter s' = m_codecAdapter s
       \<and> (m_audioPump s' = None) = (m_audioPump s = None)
       \<and> (\<exists>xs. effects s' = effects s @ xs)"
  using assms
proof (induction evs arbitrary: s now)
  case Nil
  then show ?case by (cases "future_value p s") simp_all
next
  case (Cons ev evs)
  obtain u cb where ev: "ev = (u, cb)" by (cases ev)
  show ?case
  proof (cases "future_value p s")
    case (Some r)
    with Cons.prems(1) ev show ?thesis by simp
  next
    case None
    show ?thesis
    proof (cases "d \<le> u")
      case True
      with None Cons.prems(1) ev show ?thesis by simp
    next
      case False
      from Cons.prems(2) ev
      have safe: "m_fromMicrophone s \<longrightarrow> rate_safe (m_avgBytesPerSecond s) (cb # map snd evs)"
        by simp
      from deliver_returns[OF Cons.prems(1) safe]
      obtain s1 where s1: "deliver cb s = Some s1"
          "m_fromMicrophone s1 \<longrightarrow> rate_safe (m_avgBytesPerSecond s1) (map snd evs)"
        by blast
      from deliver_frame[OF s1(1)] Cons.prems(1)
      obtain xs where f1: "m_reco s1 \<noteq> None" "m_codecAdapter s1 = m_codecAdapter s"
          "effects s1 = effects s @ xs" "(m_audioPump s1 = None) = (m_audioPump s = None)"
        by auto
      from Cons.IH[OF f1(1) s1(2), of "max now u"]
      obtain status ended s' ys where r:
          "wait_for p d (max now u) evs s1 = Some (status, ended, s')"
          "ended \<le> max (max now u) d"
          "status = (case future_value p s' of None \<Rightarrow> future_timeout
                                               | Some r \<Rightarrow> future_ready r)"
          "m_reco s' \<noteq> None" "m_codecAdapter s' = m_codecAdapter s1"
          "effects s' = effects s1 @ ys" "(m_audioPump s' = None) = (m_audioPump s1 = None)"
        by auto
      have w: "wait_for p d now (ev # evs) s = Some (status, ended, s')"
        using None False s1(1) r(1) ev by simp
      have e: "ended \<le> max now d" using r(2) False by simp
      from w e r(3,4,5,6,7) f1(2,3,4) show ?thesis by simp
    qed
  qed
qed

lemma Cleanup_frame:
  "m_audioPump (CleanupAfterEachAudioPumping s) = None
   \<and> \<not> m_fromMicrophone (CleanupAfterEachAudioPumping s)
   \<and> m_totalAudioinMS (CleanupAfterEachAudioPumping s) = 0
   \<and> m_codecAdapter (CleanupAfterEachAudioPumping s) = m_codecAdapter s
   \<and> m_reco (CleanupAfterEachAudioPumping s) = m_reco s
   \<and> promises (CleanupAfterEachAudioPumping s) = promises s
   \<and> (\<exists>ys. effects (CleanupAfterEachAudioPumping s) = effects s @ ys)"
  by (simp add: CleanupAfterEachAudioPumping_def StopPump_def pump_StopPump_def log_effect_def
      Let_def)

lemma Cleanup_releases_pump:
  "m_audioPump s \<noteq> None \<Longrightarrow>
   Released PumpRef \<in> set (drop (length (effects s)) (effects (CleanupAfterEachAudioPumping s)))"
  by (auto simp: CleanupAfterEachAudioPumping_def StopPump_def pump_StopPump_def log_effect_def
      Let_def)

lemma GetMicrophoneTimeout_frame:
  "properties s' = properties s \<Longrightarrow> m_microphoneTimeoutInMS s' = m_microphoneTimeoutInMS s
   \<Longrightarrow> GetMicrophoneTimeout s' = GetMicrophoneTimeout s"
  by (simp add: GetMicrophoneTimeout_def GetStringValue_def Let_def)

lemma wait_begins_fields:
  "promises (wait_begins enroll t audioPump s) = promises s @ [None]
   \<and> m_audioIsDone (wait_begins enroll t audioPump s) = Some (length (promises s))
   \<and> m_microphoneTimeoutInMS (wait_begins enroll t audioPump s) = t
   \<and> m_totalAudioinMS (wait_begins enroll t audioPump s) = 0
   \<and> m_reco (wait_begins enroll t audioPump s) \<noteq> None
   \<and> m_codecAdapter (wait_begins enroll t audioPump s) = m_codecAdapter s
   \<and> properties (wait_begins enroll t audioPump s) = properties s
   \<and> m_fromMicrophone (wait_begins enroll t audioPump s) = m_fromMicrophone s
   \<and> m_avgBytesPerSecond (wait_begins enroll t audioPump s) = m_avgBytesPerSecond s
   \<and> (m_audioPump (wait_begins enroll t audioPump s) = None) = (m_audioPump s = None)
   \<and> effects (wait_begins enroll t audioPump s)
       = effects s @ [RecoSetFormat (pump_format audioPump) enroll, PumpStarted]"
  by (simp add: wait_begins_def pump_StartPump_def reco_SetFormat_def log_effect_def)

lemma body_with_pump:
  assumes "m_audioPump s = Some audioPump" and "GetMicrophoneTimeout s = Inr t"
  shows "StartStreaming_body enroll ty ids arrivals s =
           (case wait_for (length (promises s)) (t + 60000) 0 arrivals
                   (wait_begins enroll t audioPump s) of
              None \<Rightarrow> None
            | Some (status, ended, s6) \<Rightarrow>
                Some (None,
                 Some (case status of future_ready r \<Rightarrow> r | future_timeout \<Rightarrow> bailed_out),
                 CleanupAfterEachAudioPumping
                   (log_effect (WaitFor (t + 60000) status ended) s6)))"
proof -
  let ?s1 = "if m_reco s = None then s\<lparr>m_reco := Some new_reco\<rparr> else s"
  let ?s2 = "reco_SetFormat (pump_format audioPump) enroll ?s1"
  let ?s3 = "?s2\<lparr>m_microphoneTimeoutInMS := t, m_totalAudioinMS := 0\<rparr>"
  let ?s4 = "?s3\<lparr>promises := promises ?s3 @ [None],
                  m_audioIsDone := Some (length (promises ?s3))\<rparr>"
  let ?s5 = "wait_begins enroll t audioPump s"
  have "GetMicrophoneTimeout ?s2 = GetMicrophoneTimeout s"
    by (rule GetMicrophoneTimeout_frame) (simp_all add: reco_SetFormat_def log_effect_def)
  with assms(2) have t: "GetMicrophoneTimeout ?s2 = Inr t" by simp
  have p: "m_audioPump ?s1 = Some audioPump" using assms(1) by simp
  have len: "length (promises ?s3) = length (promises s)"
    by (simp add: reco_SetFormat_def log_effect_def)
  have s5: "pump_StartPump ?s4 = ?s5"
    by (simp add: wait_begins_def reco_SetFormat_def log_effect_def)
  have "StartStreaming_body enroll ty ids arrivals s =
          (case wait_for (length (promises ?s3))
                  (m_microphoneTimeoutInMS (pump_StartPump ?s4) + 60000) 0
                  arrivals (pump_StartPump ?s4) of
              None \<Rightarrow> None
            | Some (status, ended, s6) \<Rightarrow>
                Some (None,
                 Some (case status of future_ready r \<Rightarrow> r | future_timeout \<Rightarrow> bailed_out),
                 CleanupAfterEachAudioPumping
                   (log_effect
                      (WaitFor (m_microphoneTimeoutInMS (pump_StartPump ?s4) + 60000) status
                         ended)
                      s6)))"
    unfolding StartStreaming_body_def Let_def
    by (simp only: p option.case t sum.case bailed_out_def CreateErrorResult_def)
  then have "StartStreaming_body enroll ty ids arrivals s =
          (case wait_for (length (promises ?s3)) (m_microphoneTimeoutInMS ?s5 + 60000) 0
                  arrivals ?s5 of
              None \<Rightarrow> None
            | Some (status, ended, s6) \<Rightarrow>
                Some (None,
                 Some (case status of future_ready r \<Rightarrow> r | future_timeout \<Rightarrow> bailed_out),
                 CleanupAfterEachAudioPumping
                   (log_effect (WaitFor (m_microphoneTimeoutInMS ?s5 + 60000) status ended)
                      s6)))"
    by (simp only: s5)
  then show ?thesis
    by (simp only: len wait_begins_fields)
qed

lemma passthrough:
  "StartStreaming_body enroll ty ids arrivals s = Some (None, result, s1) \<Longrightarrow>
   StartStreamingAudioAndWaitForResult enroll ty ids arrivals s = Some (None, result, s1)"
  by (simp add: StartStreamingAudioAndWaitForResult_def CreateTask_def ExecuteSync_def Let_def)

lemma call_with_pump:
  assumes "m_audioPump s = Some audioPump" and "GetMicrophoneTimeout s = Inr t"
    and "wait_for (length (promises s)) (t + 60000) 0 arrivals
           (wait_begins enroll t audioPump s) = Some (status, ended, s6)"
  shows "StartStreamingAudioAndWaitForResult enroll ty ids arrivals s =
           Some (None,
                 Some (case status of future_ready r \<Rightarrow> r | future_timeout \<Rightarrow> bailed_out),
                 CleanupAfterEachAudioPumping
                   (log_effect (WaitFor (t + 60000) status ended) s6))"
  by (rule passthrough)
     (simp add: body_with_pump[OF assms(1,2), of enroll ty ids arrivals] assms(3))

lemma call_throws:
  assumes "m_audioPump s \<noteq> None" and "GetMicrophoneTimeout s = Inl f"
  shows "\<exists>escaped s'.
           StartStreamingAudioAndWaitForResult enroll ty ids arrivals s
             = Some (escaped, None, s')
         \<and> m_audioPump s' = m_audioPump s
         \<and> PumpStarted \<notin> set (drop (length (effects s)) (effects s'))"
proof -
  from assms(1) obtain audioPump where ap: "m_audioPump s = Some audioPump" by auto
  let ?s1 = "if m_reco s = None then s\<lparr>m_reco := Some new_reco\<rparr> else s"
  let ?s2 = "reco_SetFormat (pump_format audioPump) enroll ?s1"
  have "GetMicrophoneTimeout ?s2 = GetMicrophoneTimeout s"
    by (rule GetMicrophoneTimeout_frame) (simp_all add: reco_SetFormat_def log_effect_def)
  with assms(2) have t: "GetMicrophoneTimeout ?s2 = Inl f" by simp
  have p: "m_audioPump ?s1 = Some audioPump" using ap by simp
  have body: "StartStreaming_body enroll ty ids arrivals s = Some (Some f, None, ?s2)"
    unfolding StartStreaming_body_def Let_def
    by (simp only: p option.case t sum.case)
  have whole: "StartStreamingAudioAndWaitForResult enroll ty ids arrivals s
          = Some (fst (Error [] ?s2), None, snd (Error [] ?s2))"
    by (simp add: StartStreamingAudioAndWaitForResult_def CreateTask_def ExecuteSync_def
        Let_def body split: prod.splits)
  have s2: "m_audioPump ?s2 = m_audioPump s"
     "effects ?s2 = effects s @ [RecoSetFormat (pump_format audioPump) enroll]"
    by (simp_all add: reco_SetFormat_def log_effect_def)
  from Error_frame[of "[]" ?s2] s2 show ?thesis
    by (simp add: whole)
qed

lemma wait_for_late:
  assumes "future_value p s = None" and "\<forall>(u, cb) \<in> set arrivals. d \<le> u"
  shows "wait_for p d now arrivals s = Some (future_timeout, max now d, s)"
  using assms by (cases arrivals) auto

lemma future_value_wait_begins:
  "future_value (length (promises s)) (wait_begins enroll t audioPump s) = None"
  by (simp add: future_value_def wait_begins_fields)

lemma wait_for_flush:
  assumes "u < d"
  shows "\<exists>audio s'. wait_for (length (promises s)) d 0 [(u, OnSetFormat None)]
                       (wait_begins enroll t audioPump s)
           = Some (future_ready (AdapterResult audio), max 0 u, s')"
  using assms
  by (auto simp: future_value_def wait_begins_def pump_StartPump_def reco_SetFormat_def
      log_effect_def SetFormat_def set_value_def reco_FlushAudio_def reco_GetResult_def
      thrown_to_caller_def Let_def nth_append new_reco_def)

text \<open>
  C2 fails on a cycle fed from a non-PCM stream. The cycle ends with the adapter's result
  and the cleanup runs, but \<^verbatim>\<open>CleanupAfterEachAudioPumping\<close> never touches
  \<^verbatim>\<open>m_codecAdapter\<close>: the codec adapter is still referenced after the call has returned,
  although the comment above the cleanup says that the audio input and all its related
  members are destroyed there. The stream initializer relies on that: it takes a non-null
  \<^verbatim>\<open>m_codecAdapter\<close> for the adapter it has just created, so the pump it makes next for a
  PCM stream reads through the stale adapter and reports the stale adapter's format.
  A second exit misses the cleanup altogether: the guard that runs it is created in the last
  statement of the task, so when the timeout lookup throws, the call returns with the pump
  still referenced and the microphone flag still set.
\<close>

theorem C2_codec_adapter_outlives_cleanup:
  "map_option (fst \<circ> snd)
      (StartStreamingAudioAndWaitForResult False 0 [] one_cycle idle_stream_session)
     = Some (Some (AdapterResult [two_seconds]))
   \<and> map_option (m_audioPump \<circ> snd \<circ> snd)
      (StartStreamingAudioAndWaitForResult False 0 [] one_cycle idle_stream_session)
     = Some None
   \<and> map_option (m_codecAdapter \<circ> snd \<circ> snd)
      (StartStreamingAudioAndWaitForResult False 0 [] one_cycle idle_stream_session)
     = Some (Some \<lparr>codec_format = Some (stream_format mp3_stream), codec_closed = False\<rparr>)
   \<and> wFormatTag (stream_format pcm_stream) = WAVE_FORMAT_PCM
   \<and> map_option (m_audioPump \<circ> InitFromStream pcm_stream True \<circ> snd \<circ> snd)
      (StartStreamingAudioAndWaitForResult False 0 [] one_cycle idle_stream_session)
     = Some (Some \<lparr>pump_kind = CSpxAudioPump, pump_state = Idle,
                   pump_format = stream_format mp3_stream, pump_reader_is_codec = True\<rparr>)
   \<and> map_option (m_audioPump \<circ> snd \<circ> snd)
      (StartStreamingAudioAndWaitForResult False 0 [] one_cycle abc_timeout_session)
     = Some (Some (microphone_pump\<lparr>pump_state := Idle\<rparr>))
   \<and> map_option (m_fromMicrophone \<circ> snd \<circ> snd)
      (StartStreamingAudioAndWaitForResult False 0 [] one_cycle abc_timeout_session)
     = Some True"
  by (simp add: microphone_pump_def eval_defs)

text \<open>
  C3 fails when the microphone-timeout override does not parse. With a pump in place and
  the override set to \<open>abc\<close>, the lookup throws before the promise exists; the task wrapper
  swallows the exception, nothing is waited for, and the call hands back the null pointer
  its result variable started as: no fault and no result value. The two sibling exits
  both set an error result: the early return without a pump does, and so does the
  deadline.
\<close>

theorem C3_null_result_when_timeout_unparsable:
  "m_audioPump abc_timeout_session = Some (microphone_pump\<lparr>pump_state := Idle\<rparr>)
   \<and> map_option fst
      (StartStreamingAudioAndWaitForResult False 0 [] one_cycle abc_timeout_session)
     = Some None
   \<and> map_option (fst \<circ> snd)
      (StartStreamingAudioAndWaitForResult False 0 [] one_cycle abc_timeout_session)
     = Some None
   \<and> map_option (effects \<circ> snd \<circ> snd)
      (StartStreamingAudioAndWaitForResult False 0 [] one_cycle abc_timeout_session)
     = Some [RecoSetFormat pcm16k False]
   \<and> map_option (fst \<circ> snd)
      (StartStreamingAudioAndWaitForResult False 0 [] one_cycle fresh_session)
     = Some (Some (ErrorResult ''Error accessing audio pump''))
   \<and> map_option (fst \<circ> snd)
      (StartStreamingAudioAndWaitForResult False 0 [] [] idle_microphone_session)
     = Some (Some bailed_out)"
  by (simp add: microphone_pump_def eval_defs)

text \<open>
  X2, the wait and its deadline: in a cycle with a pump whose microphone-timeout lookup
  succeeds with \<open>t\<close>, and in which no chunk of a microphone cycle meets a recorded rate of
  zero, the call returns a result value and no fault. It has waited on the promise of the
  cycle with the deadline \<open>t + 60000\<close> ms, and the wait has ended no later than that
  deadline. The result is the value the promise holds when the wait ends, and the
  synthesized error if the promise is still unresolved then. In particular, when nothing
  arrives before the deadline the result is the synthesized error, and a flush that
  arrives before the deadline yields the adapter's result.
\<close>

theorem X2_wait_deadline:
  assumes "m_audioPump s \<noteq> None" and "GetMicrophoneTimeout s = Inr t"
    and "m_fromMicrophone s \<longrightarrow> rate_safe (m_avgBytesPerSecond s) (map snd arrivals)"
  shows "(\<exists>status ended result s'.
            StartStreamingAudioAndWaitForResult enroll ty ids arrivals s
              = Some (None, Some result, s')
          \<and> WaitFor (t + 60000) status ended \<in> set (drop (length (effects s)) (effects s'))
          \<and> ended \<le> max 0 (t + 60000)
          \<and> status = (case future_value (length (promises s)) s' of
                         None \<Rightarrow> future_timeout
                       | Some r \<Rightarrow> future_ready r)
          \<and> result = (case future_value (length (promises s)) s' of
                         None \<Rightarrow> bailed_out
                       | Some r \<Rightarrow> r)
          \<and> ((\<forall>(u, cb) \<in> set arrivals. t + 60000 \<le> u) \<longrightarrow> result = bailed_out))
       \<and> (u < t + 60000 \<longrightarrow>
            (\<exists>audio s'. StartStreamingAudioAndWaitForResult enroll ty ids
                           [(u, OnSetFormat None)] s
                         = Some (None, Some (AdapterResult audio), s')))"
proof -
  from assms(1) obtain audioPump where ap: "m_audioPump s = Some audioPump" by auto
  let ?p = "length (promises s)"
  let ?d = "t + 60000"
  let ?s5 = "wait_begins enroll t audioPump s"
  have reco5: "m_reco ?s5 \<noteq> None" by (simp add: wait_begins_fields)
  have safe5: "m_fromMicrophone ?s5 \<longrightarrow> rate_safe (m_avgBytesPerSecond ?s5) (map snd arrivals)"
    using assms(3) by (simp add: wait_begins_fields)
  from wait_for_returns[OF reco5 safe5, of ?p ?d 0]
  obtain status ended s6 xs where w:
      "wait_for ?p ?d 0 arrivals ?s5 = Some (status, ended, s6)"
      "ended \<le> max 0 ?d"
      "status = (case future_value ?p s6 of None \<Rightarrow> future_timeout
                                           | Some r \<Rightarrow> future_ready r)"
      "effects s6 = effects ?s5 @ xs"
    by blast
  let ?result = "case status of future_ready r \<Rightarrow> r | future_timeout \<Rightarrow> bailed_out"
  let ?s7 = "log_effect (WaitFor ?d status ended) s6"
  let ?s' = "CleanupAfterEachAudioPumping ?s7"
  have whole: "StartStreamingAudioAndWaitForResult enroll ty ids arrivals s
                 = Some (None, Some ?result, ?s')"
    by (rule call_with_pump[OF ap assms(2) w(1)])
  from Cleanup_frame[of ?s7] obtain ys where c:
      "promises ?s' = promises ?s7" "effects ?s' = effects ?s7 @ ys"
    by blast
  have eff: "effects ?s'
      = effects s @ ([RecoSetFormat (pump_format audioPump) enroll, PumpStarted] @ xs
                     @ [WaitFor ?d status ended] @ ys)"
    using c(2) w(4) by (simp add: log_effect_def wait_begins_fields)
  have logged: "WaitFor ?d status ended \<in> set (drop (length (effects s)) (effects ?s'))"
    by (simp only: eff append_eq_conv_conj drop_append) simp
  have fv: "future_value ?p ?s' = future_value ?p s6"
    using c(1) by (simp add: future_value_def log_effect_def)
  have st: "status = (case future_value ?p ?s' of None \<Rightarrow> future_timeout
                                                 | Some r \<Rightarrow> future_ready r)"
    using w(3) fv by simp
  have res: "?result = (case future_value ?p ?s' of None \<Rightarrow> bailed_out | Some r \<Rightarrow> r)"
    using st by (cases "future_value ?p ?s'") simp_all
  have late: "?result = bailed_out" if "\<forall>(u, cb) \<in> set arrivals. ?d \<le> u"
  proof -
    have "wait_for ?p ?d 0 arrivals ?s5 = Some (future_timeout, max 0 ?d, ?s5)"
      by (rule wait_for_late[OF future_value_wait_begins that])
    with w(1) have "status = future_timeout" by simp
    then show ?thesis by simp
  qed
  have first: "\<exists>status ended result s'.
            StartStreamingAudioAndWaitForResult enroll ty ids arrivals s
              = Some (None, Some result, s')
          \<and> WaitFor ?d status ended \<in> set (drop (length (effects s)) (effects s'))
          \<and> ended \<le> max 0 ?d
          \<and> status = (case future_value ?p s' of
                         None \<Rightarrow> future_timeout
                       | Some r \<Rightarrow> future_ready r)
          \<and> result = (case future_value ?p s' of
                         None \<Rightarrow> bailed_out
                       | Some r \<Rightarrow> r)
          \<and> ((\<forall>(u, cb) \<in> set arrivals. ?d \<le> u) \<longrightarrow> result = bailed_out)"
    using whole logged w(2) st res late by blast
  have second: "\<exists>audio s'. StartStreamingAudioAndWaitForResult enroll ty ids
                           [(u, OnSetFormat None)] s
                         = Some (None, Some (AdapterResult audio), s')" if "u < ?d"
  proof -
    from wait_for_flush[OF that, of s enroll t audioPump]
    obtain audio s6' where
      f: "wait_for ?p ?d 0 [(u, OnSetFormat None)] ?s5
           = Some (future_ready (AdapterResult audio), max 0 u, s6')" by blast
    from call_with_pump[OF ap assms(2) f, of ty ids] show ?thesis by simp
  qed
  from first second show ?thesis by blast
qed

theorem X2_wait_deadline_witness:
  "m_audioPump idle_microphone_session \<noteq> None
   \<and> GetMicrophoneTimeout idle_microphone_session = Inr 5000
   \<and> m_fromMicrophone idle_microphone_session
   \<and> rate_safe (m_avgBytesPerSecond idle_microphone_session)
        (map snd [(10, OnSetFormat (Some pcm16k)), (20, OnProcessAudio two_seconds),
                  (65000, OnSetFormat None)])
   \<and> (\<exists>ended s'. StartStreamingAudioAndWaitForResult False 0 []
                     [(10, OnSetFormat (Some pcm16k)), (20, OnProcessAudio two_seconds),
                      (65000, OnSetFormat None)] idle_microphone_session
                   = Some (None, Some bailed_out, s')
                 \<and> WaitFor 65000 future_timeout ended \<in> set (effects s')
                 \<and> ended \<le> 65000)
   \<and> (\<exists>audio s'. StartStreamingAudioAndWaitForResult False 0 []
                     [(64999, OnSetFormat None)] idle_microphone_session
                   = Some (None, Some (AdapterResult audio), s'))"
proof -
  let ?arrivals = "[(10, OnSetFormat (Some pcm16k)), (20, OnProcessAudio two_seconds),
                    (65000, OnSetFormat None)]"
  have h1: "m_audioPump idle_microphone_session \<noteq> None" by (simp add: eval_defs)
  have h2: "GetMicrophoneTimeout idle_microphone_session = Inr 5000" by (simp add: eval_defs)
  have h3: "m_fromMicrophone idle_microphone_session" by (simp add: eval_defs)
  have h4: "rate_safe (m_avgBytesPerSecond idle_microphone_session) (map snd ?arrivals)"
    by (simp add: eval_defs)
  have h5: "m_fromMicrophone idle_microphone_session \<longrightarrow>
              rate_safe (m_avgBytesPerSecond idle_microphone_session) (map snd ?arrivals)"
    using h4 by simp
  have h6: "(64999::int) < 5000 + 60000" by simp
  have e0: "effects idle_microphone_session = []" by (simp add: eval_defs)
  note inst = X2_wait_deadline[OF h1 h2 h5, of False 0 "[]" 64999]
  from inst obtain status ended result s' where r:
      "StartStreamingAudioAndWaitForResult False 0 [] ?arrivals idle_microphone_session
         = Some (None, Some result, s')"
      "WaitFor (5000 + 60000) status ended
         \<in> set (drop (length (effects idle_microphone_session)) (effects s'))"
      "ended \<le> max 0 (5000 + 60000)"
      "status = (case future_value (length (promises idle_microphone_session)) s' of
                   None \<Rightarrow> future_timeout | Some r \<Rightarrow> future_ready r)"
      "result = (case future_value (length (promises idle_microphone_session)) s' of
                   None \<Rightarrow> bailed_out | Some r \<Rightarrow> r)"
    by blast
  have run: "map_option (fst \<circ> snd)
        (StartStreamingAudioAndWaitForResult False 0 [] ?arrivals idle_microphone_session)
      = Some (Some bailed_out)"
    by (simp add: eval_defs)
  from run r(1) have res: "result = bailed_out" by simp
  have "future_value (length (promises idle_microphone_session)) s' = None"
  proof (cases "future_value (length (promises idle_microphone_session)) s'")
    case None
    then show ?thesis .
  next
    case (Some v)
    have "map_option (future_value 0 \<circ> snd \<circ> snd)
        (StartStreamingAudioAndWaitForResult False 0 [] ?arrivals idle_microphone_session)
      = Some None"
      by (simp add: eval_defs)
    with r(1) have "future_value 0 s' = None" by simp
    moreover have "length (promises idle_microphone_session) = 0" by (simp add: eval_defs)
    ultimately show ?thesis by simp
  qed
  with r(4) have st: "status = future_timeout" by simp
  from r(2) e0 st have logged: "WaitFor 65000 future_timeout ended \<in> set (effects s')"
    by simp
  from r(3) have bound: "ended \<le> 65000" by simp
  from r(1) res logged bound
  have a: "\<exists>ended s'. StartStreamingAudioAndWaitForResult False 0 [] ?arrivals
                         idle_microphone_session
                   = Some (None, Some bailed_out, s')
                 \<and> WaitFor 65000 future_timeout ended \<in> set (effects s')
                 \<and> ended \<le> 65000"
    by blast
  from inst h6
  have b: "\<exists>audio s'. StartStreamingAudioAndWaitForResult False 0 []
                     [(64999, OnSetFormat None)] idle_microphone_session
                   = Some (None, Some (AdapterResult audio), s')"
    by blast
  from h1 h2 h3 h4 a b show ?thesis by blast
qed

text \<open>
  X3, the cleanup after a cycle that reaches the wait: in a cycle with a pump whose
  microphone-timeout lookup succeeds, and in which no chunk of a microphone cycle meets a
  recorded rate of zero, the call returns a result without a fault, whatever ended the
  cycle (the adapter's result, an error or the deadline), and it has run the cleanup
  before returning: the pump has been released and its reference is cleared, the
  microphone flag is cleared and the duration counter is zero. The engine adapter stays
  referenced for the next cycle.
\<close>

theorem X3_cleanup_after_cycle:
  assumes "m_audioPump s \<noteq> None" and "GetMicrophoneTimeout s = Inr t"
    and "m_fromMicrophone s \<longrightarrow> rate_safe (m_avgBytesPerSecond s) (map snd arrivals)"
  shows "\<exists>result s'.
           StartStreamingAudioAndWaitForResult enroll ty ids arrivals s
             = Some (None, Some result, s')
         \<and> m_audioPump s' = None
         \<and> Released PumpRef \<in> set (drop (length (effects s)) (effects s'))
         \<and> \<not> m_fromMicrophone s'
         \<and> m_totalAudioinMS s' = 0
         \<and> m_reco s' \<noteq> None"
proof -
  from assms(1) obtain audioPump where ap: "m_audioPump s = Some audioPump" by auto
  let ?p = "length (promises s)"
  let ?d = "t + 60000"
  let ?s5 = "wait_begins enroll t audioPump s"
  have reco5: "m_reco ?s5 \<noteq> None" by (simp add: wait_begins_fields)
  have safe5: "m_fromMicrophone ?s5 \<longrightarrow> rate_safe (m_avgBytesPerSecond ?s5) (map snd arrivals)"
    using assms(3) by (simp add: wait_begins_fields)
  from wait_for_returns[OF reco5 safe5, of ?p ?d 0]
  obtain status ended s6 xs where w:
      "wait_for ?p ?d 0 arrivals ?s5 = Some (status, ended, s6)"
      "m_reco s6 \<noteq> None"
      "(m_audioPump s6 = None) = (m_audioPump ?s5 = None)"
      "effects s6 = effects ?s5 @ xs"
    by auto
  let ?result = "case status of future_ready r \<Rightarrow> r | future_timeout \<Rightarrow> bailed_out"
  let ?s7 = "log_effect (WaitFor ?d status ended) s6"
  let ?s' = "CleanupAfterEachAudioPumping ?s7"
  have whole: "StartStreamingAudioAndWaitForResult enroll ty ids arrivals s
                 = Some (None, Some ?result, ?s')"
    by (rule call_with_pump[OF ap assms(2) w(1)])
  have len7: "length (effects s) \<le> length (effects ?s7)"
    using w(4) by (simp add: log_effect_def wait_begins_fields)
  have pump7: "m_audioPump ?s7 \<noteq> None"
    using w(3) ap by (simp add: log_effect_def wait_begins_fields)
  from Cleanup_releases_pump[OF pump7]
  have "Released PumpRef \<in> set (drop (length (effects ?s7)) (effects ?s'))" .
  then have released: "Released PumpRef \<in> set (drop (length (effects s)) (effects ?s'))"
    using len7 by (meson in_mono set_drop_subset_set_drop)
  from Cleanup_frame[of ?s7] w(2) whole released show ?thesis
    by (simp add: log_effect_def)
qed

theorem X3_cleanup_after_cycle_witness:
  "m_audioPump idle_microphone_session \<noteq> None
   \<and> GetMicrophoneTimeout idle_microphone_session = Inr 5000
   \<and> m_fromMicrophone idle_microphone_session
   \<and> rate_safe (m_avgBytesPerSecond idle_microphone_session) (map snd failing_cycle)
   \<and> map_option m_totalAudioinMS
        (deliver_all (map snd failing_cycle)
           (wait_begins False 5000 (microphone_pump\<lparr>pump_state := Idle\<rparr>)
              idle_microphone_session)) = Some 2000
   \<and> (\<exists>s'. StartStreamingAudioAndWaitForResult False 0 [] failing_cycle
               idle_microphone_session
             = Some (None, Some (ErrorResult ''microphone unplugged''), s')
           \<and> m_audioPump s' = None
           \<and> Released PumpRef \<in> set (effects s')
           \<and> \<not> m_fromMicrophone s'
           \<and> m_totalAudioinMS s' = 0
           \<and> m_reco s' \<noteq> None)"
proof -
  have h1: "m_audioPump idle_microphone_session \<noteq> None" by (simp add: eval_defs)
  have h2: "GetMicrophoneTimeout idle_microphone_session = Inr 5000" by (simp add: eval_defs)
  have h3: "m_fromMicrophone idle_microphone_session" by (simp add: eval_defs)
  have h4: "rate_safe (m_avgBytesPerSecond idle_microphone_session) (map snd failing_cycle)"
    by (simp add: eval_defs)
  have h5: "m_fromMicrophone idle_microphone_session \<longrightarrow>
              rate_safe (m_avgBytesPerSecond idle_microphone_session) (map snd failing_cycle)"
    using h4 by simp
  have e0: "effects idle_microphone_session = []" by (simp add: eval_defs)
  have counted: "map_option m_totalAudioinMS
        (deliver_all (map snd failing_cycle)
           (wait_begins False 5000 (microphone_pump\<lparr>pump_state := Idle\<rparr>)
              idle_microphone_session)) = Some 2000"
    by (simp add: wait_begins_def microphone_pump_def eval_defs)
  from X3_cleanup_after_cycle[OF h1 h2 h5, of False 0 "[]"]
  obtain result s' where r:
      "StartStreamingAudioAndWaitForResult False 0 [] failing_cycle idle_microphone_session
         = Some (None, Some result, s')"
      "m_audioPump s' = None"
      "Released PumpRef \<in> set (drop (length (effects idle_microphone_session)) (effects s'))"
      "\<not> m_fromMicrophone s'" "m_totalAudioinMS s' = 0" "m_reco s' \<noteq> None"
    by blast
  have run: "map_option (fst \<circ> snd)
        (StartStreamingAudioAndWaitForResult False 0 [] failing_cycle idle_microphone_session)
      = Some (Some (ErrorResult ''microphone unplugged''))"
    by (simp add: eval_defs)
  from run r(1) have res: "result = ErrorResult ''microphone unplugged''" by simp
  from r(3) e0 have rel: "Released PumpRef \<in> set (effects s')" by simp
  from r(1,2,4,5,6) res rel
  have a: "\<exists>s'. StartStreamingAudioAndWaitForResult False 0 [] failing_cycle
               idle_microphone_session
             = Some (None, Some (ErrorResult ''microphone unplugged''), s')
           \<and> m_audioPump s' = None
           \<and> Released PumpRef \<in> set (effects s')
           \<and> \<not> m_fromMicrophone s'
           \<and> m_totalAudioinMS s' = 0
           \<and> m_reco s' \<noteq> None"
    by blast
  from h1 h2 h3 h4 counted a show ?thesis by blast
qed

subsection \<open>Overrides that do not parse\<close>

lemma overrides_fallback:
  assumes "isl (stoi (GetStringValue ''OutputPCMChannelCount'' ''1'' s))
         \<or> isl (stoi (GetStringValue ''OutputPCMNumBitsPerSample'' ''16'' s))
         \<or> isl (stoi (GetStringValue ''OutputPCMSamplerate'' ''16000'' s))"
  shows "output_format_overrides s waveformat = default_output_format waveformat"
  using assms
  by (auto simp: output_format_overrides_def default_output_format_def Let_def
      split: sum.splits)

lemma timeout_parse_failure:
  assumes "GetStringValue timeout_key ''0'' s = v" and "v \<noteq> ''0''" and "stoi v = Inl e"
  shows "GetMicrophoneTimeout s = Inl (logic_error (''error in parsing'' @ v @ what e))"
  using assms by (simp add: GetMicrophoneTimeout_def timeout_key_def)

text \<open>
  C5, the claim as it stands, fails for the microphone timeout: the override \<open>abc\<close> does
  not parse, and the lookup raises a logic error instead of falling back to a default; the
  streaming call that made the lookup returns after it has given the engine adapter the
  format, without starting the pump.
\<close>

theorem C5_timeout_override_raises:
  "stoi ''abc'' = Inl invalid_argument
   \<and> GetMicrophoneTimeout abc_timeout_session
       = Inl (logic_error (''error in parsing'' @ ''abc'' @ what invalid_argument))
   \<and> map_option (effects \<circ> snd \<circ> snd)
        (StartStreamingAudioAndWaitForResult False 0 [] one_cycle abc_timeout_session)
       = Some [RecoSetFormat pcm16k False]"
  by (simp add: eval_defs)

text \<open>
  C5, amended: when one of the three PCM output-format overrides fails numeric parsing,
  the stream initializer falls back to the defaults 1 channel, 16 bits, 16000 Hz for all
  three, raises nothing and creates the pump. When the microphone-timeout override is not
  the string 0 and fails numeric parsing, the lookup raises a logic error instead, and a
  streaming call on a session with a pump ends without starting the pump.
\<close>

theorem C5_parse_failures:
  "((isl (stoi (GetStringValue ''OutputPCMChannelCount'' ''1'' s))
      \<or> isl (stoi (GetStringValue ''OutputPCMNumBitsPerSample'' ''16'' s))
      \<or> isl (stoi (GetStringValue ''OutputPCMSamplerate'' ''16000'' s)))
     \<and> m_audioPump s = None \<and> wFormatTag (stream_format stream) \<noteq> WAVE_FORMAT_PCM \<longrightarrow>
       fst (InitFromStream_task stream True s) = None
     \<and> m_audioPump (snd (InitFromStream_task stream True s)) \<noteq> None
     \<and> map_option codec_format (m_codecAdapter (snd (InitFromStream_task stream True s)))
         = Some (Some ((stream_format stream)
                         \<lparr>nChannels := 1, wBitsPerSample := 16, nSamplesPerSec := 16000\<rparr>)))
   \<and> (GetStringValue timeout_key ''0'' s = v \<and> v \<noteq> ''0'' \<and> isl (stoi v) \<longrightarrow>
        (\<exists>e. stoi v = Inl e
            \<and> GetMicrophoneTimeout s = Inl (logic_error (''error in parsing'' @ v @ what e)))
      \<and> (m_audioPump s \<noteq> None \<longrightarrow>
           (\<exists>escaped result s'.
               StartStreamingAudioAndWaitForResult enroll ty ids arrivals s
                 = Some (escaped, result, s')
             \<and> PumpStarted \<notin> set (drop (length (effects s)) (effects s')))))"
proof -
  have a: "fst (InitFromStream_task stream True s) = None
     \<and> m_audioPump (snd (InitFromStream_task stream True s)) \<noteq> None
     \<and> map_option codec_format (m_codecAdapter (snd (InitFromStream_task stream True s)))
         = Some (Some ((stream_format stream)
                         \<lparr>nChannels := 1, wBitsPerSample := 16, nSamplesPerSec := 16000\<rparr>))"
    if "isl (stoi (GetStringValue ''OutputPCMChannelCount'' ''1'' s))
      \<or> isl (stoi (GetStringValue ''OutputPCMNumBitsPerSample'' ''16'' s))
      \<or> isl (stoi (GetStringValue ''OutputPCMSamplerate'' ''16000'' s))"
      and "m_audioPump s = None" and "wFormatTag (stream_format stream) \<noteq> WAVE_FORMAT_PCM"
  proof -
    let ?s1 = "s\<lparr>m_codecAdapter := Some \<lparr>codec_format = None, codec_closed = False\<rparr>\<rparr>"
    have "output_format_overrides ?s1 (stream_format stream)
            = default_output_format (stream_format stream)"
      by (rule overrides_fallback) (use that(1) in \<open>simp add: GetStringValue_def\<close>)
    then show ?thesis
      using that(2,3)
      by (simp add: InitFromStream_task_def Let_def attach_stream_pump_def
          default_output_format_def)
  qed
  have b: "(\<exists>e. stoi v = Inl e
            \<and> GetMicrophoneTimeout s = Inl (logic_error (''error in parsing'' @ v @ what e)))
      \<and> (m_audioPump s \<noteq> None \<longrightarrow>
           (\<exists>escaped result s'.
               StartStreamingAudioAndWaitForResult enroll ty ids arrivals s
                 = Some (escaped, result, s')
             \<and> PumpStarted \<notin> set (drop (length (effects s)) (effects s'))))"
    if "GetStringValue timeout_key ''0'' s = v" and "v \<noteq> ''0''" and "isl (stoi v)"
  proof -
    from that(3) obtain e where e: "stoi v = Inl e" by (cases "stoi v") auto
    from timeout_parse_failure[OF that(1,2) e]
    have g: "GetMicrophoneTimeout s = Inl (logic_error (''error in parsing'' @ v @ what e))" .
    have "\<exists>escaped result s'.
               StartStreamingAudioAndWaitForResult enroll ty ids arrivals s
                 = Some (escaped, result, s')
             \<and> PumpStarted \<notin> set (drop (length (effects s)) (effects s'))"
      if pump: "m_audioPump s \<noteq> None"
      using call_throws[OF pump g, of enroll ty ids arrivals] by blast
    with e g show ?thesis by blast
  qed
  from a b show ?thesis by blast
qed

theorem C5_parse_failures_witness:
  "isl (stoi (GetStringValue ''OutputPCMSamplerate'' ''16000'' fast_rate_session))
   \<and> m_audioPump fast_rate_session = None
   \<and> wFormatTag (stream_format mp3_stream) \<noteq> WAVE_FORMAT_PCM
   \<and> fst (InitFromStream_task mp3_stream True fast_rate_session) = None
   \<and> map_option codec_format
        (m_codecAdapter (snd (InitFromStream_task mp3_stream True fast_rate_session)))
       = Some (Some ((stream_format mp3_stream)
                       \<lparr>nChannels := 1, wBitsPerSample := 16, nSamplesPerSec := 16000\<rparr>))
   \<and> GetStringValue timeout_key ''0'' abc_timeout_session = ''abc''
   \<and> isl (stoi ''abc'')
   \<and> m_audioPump abc_timeout_session \<noteq> None
   \<and> effects abc_timeout_session = []
   \<and> (\<exists>escaped result s'.
         StartStreamingAudioAndWaitForResult False 0 [] [] abc_timeout_session
           = Some (escaped, result, s')
       \<and> PumpStarted \<notin> set (effects s'))"
proof -
  have h1: "isl (stoi (GetStringValue ''OutputPCMSamplerate'' ''16000'' fast_rate_session))"
    by (simp add: eval_defs)
  have h2: "m_audioPump fast_rate_session = None" by (simp add: eval_defs)
  have h3: "wFormatTag (stream_format mp3_stream) \<noteq> WAVE_FORMAT_PCM" by (simp add: eval_defs)
  have h4: "GetStringValue timeout_key ''0'' abc_timeout_session = ''abc''"
    by (simp add: eval_defs)
  have h5: "isl (stoi ''abc'')" by (simp add: eval_defs)
  have h6: "m_audioPump abc_timeout_session \<noteq> None" by (simp add: eval_defs)
  have h7: "effects abc_timeout_session = []" by (simp add: eval_defs)
  from C5_parse_failures[of fast_rate_session mp3_stream "''abc''" False 0 "[]" "[]"]
       h1 h2 h3
  have a: "fst (InitFromStream_task mp3_stream True fast_rate_session) = None
   \<and> map_option codec_format
        (m_codecAdapter (snd (InitFromStream_task mp3_stream True fast_rate_session)))
       = Some (Some ((stream_format mp3_stream)
                       \<lparr>nChannels := 1, wBitsPerSample := 16, nSamplesPerSec := 16000\<rparr>))"
    by blast
  from C5_parse_failures[of abc_timeout_session mp3_stream "''abc''" False 0 "[]" "[]"]
       h4 h5 h6
  have "\<exists>escaped result s'.
         StartStreamingAudioAndWaitForResult False 0 [] [] abc_timeout_session
           = Some (escaped, result, s')
       \<and> PumpStarted \<notin> set (drop (length (effects abc_timeout_session)) (effects s'))"
    by blast
  with h7 have b: "\<exists>escaped result s'.
         StartStreamingAudioAndWaitForResult False 0 [] [] abc_timeout_session
           = Some (escaped, result, s')
       \<and> PumpStarted \<notin> set (effects s')"
    by simp
  from h1 h2 h3 h4 h5 h6 h7 a b show ?thesis by blast
qed

text \<open>
  C10, the claim as it stands, fails: the override \<open>00\<close> is not the string \<open>0\<close>, parses
  to zero and configures a timeout of zero milliseconds, although the member held 5000.
\<close>

theorem C10_double_zero_configures_zero:
  "m_microphoneTimeoutInMS double_zero_session = 5000
   \<and> GetMicrophoneTimeout double_zero_session = Inr 0"
  by (simp add: eval_defs)

text \<open>
  C10, amended: the lookup treats exactly the string \<open>0\<close> (which is also what an unset
  key reads as) as not configured and returns the timeout member unchanged. Any other
  string that parses to zero, such as \<open>00\<close>, configures a timeout of zero milliseconds.
\<close>

theorem C10_zero_string_keeps_member:
  "(GetStringValue timeout_key ''0'' s = ''0'' \<longrightarrow>
      GetMicrophoneTimeout s = Inr (m_microphoneTimeoutInMS s))
   \<and> (GetStringValue timeout_key ''0'' s = v \<and> v \<noteq> ''0'' \<and> stoi v = Inr 0 \<longrightarrow>
      GetMicrophoneTimeout s = Inr 0)
   \<and> stoi ''00'' = Inr 0"
  by (auto simp: GetMicrophoneTimeout_def timeout_key_def stoi_def strip_sign_def isspace_def
      isdigit_def digit_value_def Let_def)

theorem C10_zero_string_keeps_member_witness:
  "GetStringValue timeout_key ''0'' fresh_session = ''0''
   \<and> GetMicrophoneTimeout fresh_session = Inr 5000
   \<and> GetStringValue timeout_key ''0'' double_zero_session = ''00''
   \<and> ''00'' \<noteq> ''0'' \<and> stoi ''00'' = Inr 0
   \<and> GetMicrophoneTimeout double_zero_session = Inr 0"
proof -
  have h1: "GetStringValue timeout_key ''0'' fresh_session = ''0''" by (simp add: eval_defs)
  have h2: "GetStringValue timeout_key ''0'' double_zero_session = ''00''"
    by (simp add: eval_defs)
  have h3: "stoi ''00'' = Inr 0" by (simp add: eval_defs)
  have h4: "m_microphoneTimeoutInMS fresh_session = 5000" by (simp add: eval_defs)
  from C10_zero_string_keeps_member[of fresh_session "''0''"]
       C10_zero_string_keeps_member[of double_zero_session "''00''"] h1 h2 h3 h4
  show ?thesis by simp
qed

subsection \<open>Term\<close>

lemma teardown_effects:
  "effects (teardown s) =
          effects s
          @ (if m_codecAdapter s = None then [] else [CodecClosed])
          @ [ThreadServiceTerm]
          @ (if m_audioPump s = None then [] else [Released PumpRef])
          @ (if m_keepFactoryAlive s then [Released FactoryRef] else [])
          @ (if m_codecAdapter s = None then [] else [Released CodecAdapterRef])
          @ (if m_reco s = None then [] else [Released EngineAdapterRef])"
  by (cases "m_codecAdapter s"; cases "m_audioPump s"; cases "m_keepFactoryAlive s";
      cases "m_reco s")
     (simp_all add: teardown_def codec_Close_def threadService_Term_def log_effect_def)

lemma teardown_fields:
  "m_audioPump (teardown s) = None \<and> \<not> m_keepFactoryAlive (teardown s)
   \<and> m_codecAdapter (teardown s) = None \<and> m_reco (teardown s) = None
   \<and> promises (teardown s) = promises s"
  by (cases "m_codecAdapter s"; cases "m_audioPump s"; cases "m_keepFactoryAlive s";
      cases "m_reco s")
     (simp_all add: teardown_def codec_Close_def threadService_Term_def log_effect_def)

lemma Term_idle:
  assumes "\<not> pump_is_processing s"
  shows "Term s = (None, teardown s)"
  using assms by (simp add: Term_def teardown_def Let_def)

lemma Term_processing:
  assumes "pump_is_processing s" and "m_audioIsDone s = Some p" and "p < length (promises s)"
    and "promises s ! p = None"
  shows "Term s = (None, teardown
           (log_effect (PromiseSetValue p (ErrorResult ''Terminate the http session.''))
              ((pump_StopPump s)\<lparr>promises :=
                  (promises s)[p := Some (ErrorResult ''Terminate the http session.'')]\<rparr>)))"
  using assms
  by (simp add: Term_def teardown_def Let_def Error_def set_value_def CreateErrorResult_def
      pump_StopPump_def log_effect_def)

text \<open>
  C6, the claim as it stands, fails on the order: in a session that is terminated in the
  middle of a cycle, the pump is stopped first and the promise is resolved with the error
  result after that, not the other way round.
\<close>

theorem C6_stop_precedes_error:
  "effects (snd (Term waiting_stream_session)) =
     [RecoSetFormat (stream_format mp3_stream) False, PumpStarted, PumpStopped,
      PromiseSetValue 0 (ErrorResult ''Terminate the http session.''),
      CodecClosed, ThreadServiceTerm,
      Released PumpRef, Released FactoryRef, Released CodecAdapterRef,
      Released EngineAdapterRef]
   \<and> occurs_before PumpStopped
        (PromiseSetValue 0 (ErrorResult ''Terminate the http session.''))
        (effects (snd (Term waiting_stream_session)))
   \<and> \<not> occurs_before (PromiseSetValue 0 (ErrorResult ''Terminate the http session.''))
        PumpStopped (effects (snd (Term waiting_stream_session)))"
  by (simp add: waiting_stream_session_def stream_pump_def Term_def pump_is_processing_def
      pump_StopPump_def Error_def set_value_def log_effect_def CreateErrorResult_def
      codec_Close_def threadService_Term_def Let_def occurs_before_def)

text \<open>
  C6, amended: when the pump is processing and the pending promise is still unresolved,
  \<^verbatim>\<open>Term\<close> first stops the pump, then resolves the promise exactly once with the error
  result, then closes the codec adapter and ends the thread service, and then releases what
  it owns in the order pump, factory reference, codec adapter, engine adapter; afterwards
  all four references are cleared. When the pump is not processing, \<^verbatim>\<open>Term\<close> resolves
  no promise and releases in the same order.
\<close>

theorem C6_terminate_order:
  "(pump_is_processing s \<and> m_audioIsDone s = Some p \<and> p < length (promises s)
      \<and> promises s ! p = None \<longrightarrow>
        fst (Term s) = None
      \<and> effects (snd (Term s)) =
          effects s
          @ [PumpStopped, PromiseSetValue p (ErrorResult ''Terminate the http session.'')]
          @ (if m_codecAdapter s = None then [] else [CodecClosed])
          @ [ThreadServiceTerm, Released PumpRef]
          @ (if m_keepFactoryAlive s then [Released FactoryRef] else [])
          @ (if m_codecAdapter s = None then [] else [Released CodecAdapterRef])
          @ (if m_reco s = None then [] else [Released EngineAdapterRef])
      \<and> promises (snd (Term s))
          = (promises s)[p := Some (ErrorResult ''Terminate the http session.'')]
      \<and> m_audioPump (snd (Term s)) = None \<and> \<not> m_keepFactoryAlive (snd (Term s))
      \<and> m_codecAdapter (snd (Term s)) = None \<and> m_reco (snd (Term s)) = None)
   \<and> (\<not> pump_is_processing s \<longrightarrow>
        fst (Term s) = None
      \<and> promises (snd (Term s)) = promises s
      \<and> resolutions (snd (Term s)) = resolutions s
      \<and> effects (snd (Term s)) =
          effects s
          @ (if m_codecAdapter s = None then [] else [CodecClosed])
          @ [ThreadServiceTerm]
          @ (if m_audioPump s = None then [] else [Released PumpRef])
          @ (if m_keepFactoryAlive s then [Released FactoryRef] else [])
          @ (if m_codecAdapter s = None then [] else [Released CodecAdapterRef])
          @ (if m_reco s = None then [] else [Released EngineAdapterRef]))"
proof -
  have a: "fst (Term s) = None
      \<and> effects (snd (Term s)) =
          effects s
          @ [PumpStopped, PromiseSetValue p (ErrorResult ''Terminate the http session.'')]
          @ (if m_codecAdapter s = None then [] else [CodecClosed])
          @ [ThreadServiceTerm, Released PumpRef]
          @ (if m_keepFactoryAlive s then [Released FactoryRef] else [])
          @ (if m_codecAdapter s = None then [] else [Released CodecAdapterRef])
          @ (if m_reco s = None then [] else [Released EngineAdapterRef])
      \<and> promises (snd (Term s))
          = (promises s)[p := Some (ErrorResult ''Terminate the http session.'')]
      \<and> m_audioPump (snd (Term s)) = None \<and> \<not> m_keepFactoryAlive (snd (Term s))
      \<and> m_codecAdapter (snd (Term s)) = None \<and> m_reco (snd (Term s)) = None"
    if h: "pump_is_processing s" "m_audioIsDone s = Some p" "p < length (promises s)"
      "promises s ! p = None"
  proof -
    let ?x = "log_effect (PromiseSetValue p (ErrorResult ''Terminate the http session.''))
              ((pump_StopPump s)\<lparr>promises :=
                  (promises s)[p := Some (ErrorResult ''Terminate the http session.'')]\<rparr>)"
    have t: "Term s = (None, teardown ?x)"
      using Term_processing[OF h] .
    from h(1) have pump: "m_audioPump s \<noteq> None"
      by (cases "m_audioPump s") (simp_all add: pump_is_processing_def)
    have x: "effects ?x = effects s
               @ [PumpStopped, PromiseSetValue p (ErrorResult ''Terminate the http session.'')]"
        "m_codecAdapter ?x = m_codecAdapter s" "m_keepFactoryAlive ?x = m_keepFactoryAlive s"
        "m_reco ?x = m_reco s" "m_audioPump ?x \<noteq> None"
        "promises ?x = (promises s)[p := Some (ErrorResult ''Terminate the http session.'')]"
      using pump by (auto simp: pump_StopPump_def log_effect_def)
    from teardown_effects[of ?x] teardown_fields[of ?x] x show ?thesis
      by (simp add: t)
  qed
  have b: "fst (Term s) = None
      \<and> promises (snd (Term s)) = promises s
      \<and> resolutions (snd (Term s)) = resolutions s
      \<and> effects (snd (Term s)) =
          effects s
          @ (if m_codecAdapter s = None then [] else [CodecClosed])
          @ [ThreadServiceTerm]
          @ (if m_audioPump s = None then [] else [Released PumpRef])
          @ (if m_keepFactoryAlive s then [Released FactoryRef] else [])
          @ (if m_codecAdapter s = None then [] else [Released CodecAdapterRef])
          @ (if m_reco s = None then [] else [Released EngineAdapterRef])"
    if h: "\<not> pump_is_processing s"
    using teardown_effects[of s] teardown_fields[of s]
    by (simp add: Term_idle[OF h] resolutions_def)
  from a b show ?thesis by blast
qed

theorem C6_terminate_order_witness:
  "pump_is_processing waiting_stream_session
   \<and> m_audioIsDone waiting_stream_session = Some 0
   \<and> 0 < length (promises waiting_stream_session)
   \<and> promises waiting_stream_session ! 0 = None
   \<and> fst (Term waiting_stream_session) = None
   \<and> promises (snd (Term waiting_stream_session))
       = [Some (ErrorResult ''Terminate the http session.'')]
   \<and> m_reco (snd (Term waiting_stream_session)) = None
   \<and> \<not> pump_is_processing idle_microphone_session
   \<and> promises (snd (Term idle_microphone_session)) = promises idle_microphone_session
   \<and> effects (snd (Term idle_microphone_session))
       = [ThreadServiceTerm, Released PumpRef, Released FactoryRef]"
proof -
  have h1: "pump_is_processing waiting_stream_session"
    by (simp add: waiting_stream_session_def stream_pump_def pump_is_processing_def)
  have h2: "m_audioIsDone waiting_stream_session = Some 0"
    by (simp add: waiting_stream_session_def)
  have h3: "0 < length (promises waiting_stream_session)"
    by (simp add: waiting_stream_session_def)
  have h4: "promises waiting_stream_session ! 0 = None"
    by (simp add: waiting_stream_session_def)
  have h5: "promises waiting_stream_session = [None]"
    by (simp add: waiting_stream_session_def)
  have h6: "\<not> pump_is_processing idle_microphone_session"
    by (simp add: eval_defs)
  have h7: "effects idle_microphone_session = []" "m_codecAdapter idle_microphone_session = None"
    "m_audioPump idle_microphone_session \<noteq> None" "m_keepFactoryAlive idle_microphone_session"
    "m_reco idle_microphone_session = None"
    by (simp_all add: eval_defs)
  from C6_terminate_order[of waiting_stream_session 0] C6_terminate_order[of idle_microphone_session 0]
       h1 h2 h3 h4 h5 h6 h7
  show ?thesis by simp
qed

subsection \<open>The initializers when a pump exists\<close>

text \<open>
  C7, the claim as it stands, fails: in a session that has a pump, the task built for
  \<^verbatim>\<open>InitFromFile\<close> throws the already-initialized fault inside the task, the wrapper
  catches it and the task ends without a fault; what happens instead is a call of
  \<^verbatim>\<open>Error\<close> with an empty message, which resolves the pending promise of the running
  cycle with an error result.
\<close>

theorem C7_fault_becomes_error_call:
  "InitFromFile_task ''a.wav'' pcm16k waiting_session
        = (Some SPXERR_ALREADY_INITIALIZED, waiting_session)
   \<and> fst (CreateTask (InitFromFile_task ''a.wav'' pcm16k) waiting_session) = None
   \<and> future_value 0 (InitFromFile ''a.wav'' pcm16k waiting_session) = Some (ErrorResult [])"
  by (simp add: waiting_session_def eval_defs)

text \<open>
  C7, amended: whenever a pump already exists, the function that each of
  \<^verbatim>\<open>InitFromFile\<close>, \<^verbatim>\<open>InitFromMicrophone\<close> and \<^verbatim>\<open>InitFromStream\<close> queues fails with
  the already-initialized error and changes nothing; the task wrapper catches that error
  and turns it into a call of \<^verbatim>\<open>Error\<close>, so each initializer returns normally and
  leaves the session as that call leaves it, with the existing pump still in place.
\<close>

theorem C7_already_initialized:
  assumes "m_audioPump s \<noteq> None"
  shows "InitFromFile_task filename file_format s = (Some SPXERR_ALREADY_INITIALIZED, s)
       \<and> InitFromMicrophone_task mic_format s = (Some SPXERR_ALREADY_INITIALIZED, s)
       \<and> InitFromStream_task stream codec_available s = (Some SPXERR_ALREADY_INITIALIZED, s)
       \<and> (\<exists>msg. CreateTask (InitFromFile_task filename file_format) s = Error msg s
               \<and> CreateTask (InitFromMicrophone_task mic_format) s = Error msg s
               \<and> CreateTask (InitFromStream_task stream codec_available) s = Error msg s
               \<and> InitFromFile filename file_format s = snd (Error msg s)
               \<and> InitFromMicrophone mic_format s = snd (Error msg s)
               \<and> InitFromStream stream codec_available s = snd (Error msg s))
       \<and> m_audioPump (InitFromFile filename file_format s) = m_audioPump s
       \<and> m_audioPump (InitFromMicrophone mic_format s) = m_audioPump s
       \<and> m_audioPump (InitFromStream stream codec_available s) = m_audioPump s"
proof -
  have tasks: "InitFromFile_task filename file_format s = (Some SPXERR_ALREADY_INITIALIZED, s)"
      "InitFromMicrophone_task mic_format s = (Some SPXERR_ALREADY_INITIALIZED, s)"
      "InitFromStream_task stream codec_available s = (Some SPXERR_ALREADY_INITIALIZED, s)"
    using assms
    by (simp_all add: InitFromFile_task_def InitFromMicrophone_task_def InitFromStream_task_def)
  have wrapped: "CreateTask (InitFromFile_task filename file_format) s = Error [] s"
      "CreateTask (InitFromMicrophone_task mic_format) s = Error [] s"
      "CreateTask (InitFromStream_task stream codec_available) s = Error [] s"
    by (simp_all add: CreateTask_def tasks)
  have queued: "InitFromFile filename file_format s = snd (Error [] s)"
      "InitFromMicrophone mic_format s = snd (Error [] s)"
      "InitFromStream stream codec_available s = snd (Error [] s)"
    by (simp_all add: InitFromFile_def InitFromMicrophone_def InitFromStream_def
        ExecuteAsync_def wrapped)
  have pump: "m_audioPump (snd (Error [] s)) = m_audioPump s"
    using Error_frame[of "[]" s] by simp
  from tasks wrapped queued pump show ?thesis by auto
qed

theorem C7_already_initialized_witness:
  "m_audioPump idle_microphone_session \<noteq> None
   \<and> InitFromMicrophone_task pcm16k idle_microphone_session
       = (Some SPXERR_ALREADY_INITIALIZED, idle_microphone_session)
   \<and> m_audioPump (InitFromStream mp3_stream True idle_microphone_session)
       = m_audioPump idle_microphone_session
   \<and> m_audioPump (InitFromFile ''a.wav'' pcm16k idle_microphone_session)
       = m_audioPump idle_microphone_session"
proof -
  have h1: "m_audioPump idle_microphone_session \<noteq> None" by (simp add: eval_defs)
  from C7_already_initialized[OF h1, of "''a.wav''" pcm16k pcm16k mp3_stream True] h1
  show ?thesis by simp
qed

subsection \<open>The transport error taxonomy\<close>

text \<open>
  C8, the claim as it stands, fails: \<^verbatim>\<open>TRANSPORT_ERROR_UNKNOWN\<close> is a value of the
  reason code and is none of the six categories the claim lists.
\<close>

theorem C8_unknown_is_a_category:
  "TRANSPORT_ERROR_UNKNOWN \<notin> set spec_categories"
  by (simp add: spec_categories_def)

text \<open>
  C8, amended: the reason code has exactly seven values, the six listed categories and
  \<^verbatim>\<open>TRANSPORT_ERROR_UNKNOWN\<close>; an error information record consists of the reason code,
  an integer error code and the error string.
\<close>

theorem C8_seven_categories:
  "(e = TRANSPORT_ERROR_UNKNOWN \<or> e \<in> set spec_categories)
   \<and> distinct (TRANSPORT_ERROR_UNKNOWN # spec_categories)
   \<and> length (TRANSPORT_ERROR_UNKNOWN # spec_categories) = 7
   \<and> info = \<lparr>reason = reason info, errorCode = errorCode info,
              errorString = errorString info\<rparr>"
  by (cases e) (simp_all add: spec_categories_def)

end
